theory Spec2Isabelle
  imports Main "HOL-Library.Word"
begin

section \<open>JavaScript values and the built-ins the media tools use\<close>

text \<open>
  The media tools of the Feishu plugin (\<^verbatim>\<open>src/media-tools.ts\<close>) are thin asynchronous
  wrappers around the media primitives of \<^verbatim>\<open>media.js\<close>. The embedding below follows the
  TypeScript source function by function. Strings are lists of 8-bit characters, a
  \<^verbatim>\<open>Buffer\<close> is a list of bytes. A number is an integer from \<^verbatim>\<open>-2^53\<close> to
  \<^verbatim>\<open>2^53 - 1\<close>, kept as a signed 54-bit word: every such value is an exact double and
  prints as its plain decimal digits (no fractions, no exponent notation). An object is an
  ordinary object (prototype \<^verbatim>\<open>Object.prototype\<close>) with own data properties, kept as an
  association list in property-enumeration order; functions are not values of the model.
\<close>

datatype jsval =
    JUndefined
  | JNull
  | JBool bool
  | JNum "54 word"
  | JStr string
  | JArr "jsval list"
  | JObj "(string \<times> jsval) list"

type_synonym jsobj = "(string \<times> jsval) list"

type_synonym Buffer = "8 word list"

subsection \<open>Numbers to decimal text\<close>

definition digit_char :: "nat \<Rightarrow> char" where
  "digit_char d = ''0123456789'' ! (d mod 10)"

function show_nat :: "nat \<Rightarrow> string" where
  "show_nat n = (if n < 10 then [digit_char n] else show_nat (n div 10) @ [digit_char n])"
  by pat_completeness auto
termination
  by (relation "measure (\<lambda>n. n)") auto

declare show_nat.simps [simp del]

definition show_int :: "int \<Rightarrow> string" where
  "show_int i = (if i < 0 then CHR ''-'' # show_nat (nat (- i)) else show_nat (nat i))"

subsection \<open>String helpers\<close>

fun join :: "string \<Rightarrow> string list \<Rightarrow> string" where
  "join sep [] = []"
| "join sep [x] = x"
| "join sep (x # y # ys) = x @ sep @ join sep (y # ys)"

text \<open>\<^verbatim>\<open>s.startsWith(p)\<close>.\<close>

definition startsWith :: "string \<Rightarrow> string \<Rightarrow> bool" where
  "startsWith s p = (take (length p) s = p)"

text \<open>
  A caught or passed value of type \<^verbatim>\<open>unknown\<close>: an instance of \<^verbatim>\<open>Error\<close> with its
  message, or any other value.
\<close>

datatype errval = ErrorObj string | NonError jsval

text \<open>The \<^verbatim>\<open>TypeError\<close> that V8 throws when an object has no usable conversion.\<close>

definition cannot_convert :: errval where
  "cannot_convert = ErrorObj ''Cannot convert object to primitive value''"

text \<open>The results of a list of evaluations, up to the first one that throws.\<close>

fun sequence_sum :: "('e + 'a) list \<Rightarrow> 'e + 'a list" where
  "sequence_sum [] = Inr []"
| "sequence_sum (Inl e # rs) = Inl e"
| "sequence_sum (Inr x # rs) =
     (case sequence_sum rs of Inl e \<Rightarrow> Inl e | Inr xs \<Rightarrow> Inr (x # xs))"

text \<open>
  \<^verbatim>\<open>String(v)\<close>, which can throw. An array joins the texts of its elements with commas
  (\<^verbatim>\<open>null\<close> and \<^verbatim>\<open>undefined\<close> elements give the empty text) and throws what an element
  throws. An object goes through \<^verbatim>\<open>toString\<close> and then \<^verbatim>\<open>valueOf\<close>: without an own
  \<^verbatim>\<open>toString\<close> property the inherited one answers \<^verbatim>\<open>[object Object]\<close>; an own
  \<^verbatim>\<open>toString\<close> property is never callable here, \<^verbatim>\<open>valueOf\<close> (own and not callable, or
  inherited and returning the object) gives no primitive either, and the conversion throws.
\<close>

fun js_String :: "jsval \<Rightarrow> errval + string" where
  "js_String JUndefined = Inr ''undefined''"
| "js_String JNull = Inr ''null''"
| "js_String (JBool b) = Inr (if b then ''true'' else ''false'')"
| "js_String (JNum n) = Inr (show_int (sint n))"
| "js_String (JStr s) = Inr s"
| "js_String (JArr xs) =
     (case sequence_sum
             (map (\<lambda>x. if x = JUndefined \<or> x = JNull then Inr [] else js_String x) xs) of
        Inl e \<Rightarrow> Inl e
      | Inr texts \<Rightarrow> Inr (join '','' texts))"
| "js_String (JObj kvs) =
     (if ''toString'' \<in> set (map fst kvs) then Inl cannot_convert
      else Inr ''[object Object]'')"

text \<open>
  The replacement text of \<^verbatim>\<open>String.prototype.replace\<close> with a string pattern
  (ECMAScript GetSubstitution without captures): \<^verbatim>\<open>$$\<close> is a dollar sign, \<^verbatim>\<open>$&\<close> the
  matched text, \<^verbatim>\<open>$`\<close> the text before the match and \<^verbatim>\<open>$'\<close> the text after it;
  every other character stands for itself.
\<close>

fun getSubstitution :: "string \<Rightarrow> string \<Rightarrow> string \<Rightarrow> string \<Rightarrow> string" where
  "getSubstitution matched pre post [] = []"
| "getSubstitution matched pre post [c] = [c]"
| "getSubstitution matched pre post (c # d # r) =
     (if c = CHR ''$'' \<and> d = CHR ''$'' then CHR ''$'' # getSubstitution matched pre post r
      else if c = CHR ''$'' \<and> d = CHR ''&'' then matched @ getSubstitution matched pre post r
      else if c = CHR ''$'' \<and> d = CHR 0x60 then pre @ getSubstitution matched pre post r
      else if c = CHR ''$'' \<and> d = CHR 0x27 then post @ getSubstitution matched pre post r
      else c # getSubstitution matched pre post (d # r))"

text \<open>
  \<^verbatim>\<open>s.replace(c, repl)\<close> for a one-character string pattern \<^verbatim>\<open>c\<close>: only the first
  occurrence is replaced; without an occurrence the string is returned as it is.
\<close>

definition replace :: "string \<Rightarrow> char \<Rightarrow> string \<Rightarrow> string" where
  "replace s c repl =
     (let pre = takeWhile (\<lambda>x. x \<noteq> c) s;
          rest = dropWhile (\<lambda>x. x \<noteq> c) s
      in if rest = [] then s
         else pre @ getSubstitution [c] pre (tl rest) repl @ tl rest)"

text \<open>
  \<^verbatim>\<open>path.basename(p)\<close> of Node's POSIX flavour: trailing slashes are dropped, and the
  text after the last remaining slash is returned.
\<close>

definition basename :: "string \<Rightarrow> string" where
  "basename p =
     rev (takeWhile (\<lambda>x. x \<noteq> CHR ''/'') (dropWhile (\<lambda>x. x = CHR ''/'') (rev p)))"

subsection \<open>JSON.stringify with an indentation of two spaces\<close>

definition hex_digit :: "nat \<Rightarrow> char" where
  "hex_digit d = ''0123456789abcdef'' ! (d mod 16)"

definition escape_char :: "char \<Rightarrow> string" where
  "escape_char c =
     (if c = CHR 0x22 then [CHR 0x5C, CHR 0x22]
      else if c = CHR 0x5C then [CHR 0x5C, CHR 0x5C]
      else if c = CHR 0x08 then [CHR 0x5C, CHR ''b'']
      else if c = CHR 0x0C then [CHR 0x5C, CHR ''f'']
      else if c = CHR 0x0A then [CHR 0x5C, CHR ''n'']
      else if c = CHR 0x0D then [CHR 0x5C, CHR ''r'']
      else if c = CHR 0x09 then [CHR 0x5C, CHR ''t'']
      else if (of_char c :: nat) < 32
        then [CHR 0x5C, CHR ''u'', CHR ''0'', CHR ''0'',
              hex_digit ((of_char c :: nat) div 16), hex_digit (of_char c)]
      else [c])"

definition quoteJSON :: "string \<Rightarrow> string" where
  "quoteJSON s = CHR 0x22 # concat (map escape_char s) @ [CHR 0x22]"

definition defined_members :: "jsobj \<Rightarrow> jsobj" where
  "defined_members kvs = filter (\<lambda>kv. snd kv \<noteq> JUndefined) kvs"

lemma defined_members_size:
  "x \<in> set (defined_members kvs) \<Longrightarrow> size (snd x) < size (JObj kvs)"
  by (induction kvs) (auto simp: defined_members_def split: if_splits)

text \<open>
  \<^verbatim>\<open>serialize ind v\<close> is the text of \<^verbatim>\<open>v\<close> at the current indentation \<^verbatim>\<open>ind\<close>. An
  \<^verbatim>\<open>undefined\<close> array element is written \<^verbatim>\<open>null\<close>; an object member whose value is
  \<^verbatim>\<open>undefined\<close> is left out.
\<close>

function (sequential) serialize :: "string \<Rightarrow> jsval \<Rightarrow> string" where
  "serialize ind JUndefined = ''null''"
| "serialize ind JNull = ''null''"
| "serialize ind (JBool b) = (if b then ''true'' else ''false'')"
| "serialize ind (JNum n) = show_int (sint n)"
| "serialize ind (JStr s) = quoteJSON s"
| "serialize ind (JArr xs) =
     (if xs = [] then ''[]''
      else ''['' @ [CHR 0x0A]
           @ join ('','' @ [CHR 0x0A]) (map (\<lambda>x. (ind @ ''  '') @ serialize (ind @ ''  '') x) xs)
           @ [CHR 0x0A] @ ind @ '']'')"
| "serialize ind (JObj kvs) =
     (if defined_members kvs = [] then ''{}''
      else ''{'' @ [CHR 0x0A]
           @ join ('','' @ [CHR 0x0A])
               (map (\<lambda>kv. (ind @ ''  '') @ quoteJSON (fst kv) @ '': ''
                            @ serialize (ind @ ''  '') (snd kv))
                 (defined_members kvs))
           @ [CHR 0x0A] @ ind @ ''}'')"
  by pat_completeness auto
termination
proof (relation "measure (\<lambda>p. size (snd p))")
  show "wf (measure (\<lambda>p. size (snd p)))" by simp
next
  fix ind :: string and xs :: "jsval list" and x
  assume "x \<in> set xs"
  then show "((ind @ ''  '', x), ind, JArr xs) \<in> measure (\<lambda>p. size (snd p))"
    by (induction xs) auto
next
  fix ind :: string and kvs :: jsobj and x
  assume "x \<in> set (defined_members kvs)"
  then show "((ind @ ''  '', snd x), ind, JObj kvs) \<in> measure (\<lambda>p. size (snd p))"
    using defined_members_size by simp
qed

text \<open>\<^verbatim>\<open>JSON.stringify(data, null, 2)\<close> for an object \<^verbatim>\<open>data\<close>.\<close>

definition JSON_stringify :: "jsobj \<Rightarrow> string" where
  "JSON_stringify data = serialize [] (JObj data)"

subsection \<open>Buffer.toString("base64") and its inverse\<close>

definition b64chars :: string where
  "b64chars = ''ABCDEFGHIJKLMNOPQRSTUVWXYZabcdefghijklmnopqrstuvwxyz0123456789+/''"

definition b64_char :: "nat \<Rightarrow> char" where
  "b64_char n = b64chars ! (n mod 64)"

fun index_of :: "'a \<Rightarrow> 'a list \<Rightarrow> nat option" where
  "index_of c [] = None"
| "index_of c (x # xs) = (if c = x then Some 0 else map_option Suc (index_of c xs))"

definition b64_index :: "char \<Rightarrow> nat option" where
  "b64_index c = index_of c b64chars"

text \<open>
  The standard alphabet with \<^verbatim>\<open>=\<close> padding (RFC 4648): three bytes give four characters;
  a last group of one or two bytes is padded to four characters.
\<close>

fun toString_base64 :: "Buffer \<Rightarrow> string" where
  "toString_base64 [] = []"
| "toString_base64 [a] =
     [b64_char (unat a div 4), b64_char ((unat a mod 4) * 16), CHR ''='', CHR ''='']"
| "toString_base64 [a, b] =
     [b64_char (unat a div 4), b64_char ((unat a mod 4) * 16 + unat b div 16),
      b64_char ((unat b mod 16) * 4), CHR ''='']"
| "toString_base64 (a # b # c # rest) =
     [b64_char (unat a div 4), b64_char ((unat a mod 4) * 16 + unat b div 16),
      b64_char ((unat b mod 16) * 4 + unat c div 64), b64_char (unat c mod 64)]
     @ toString_base64 rest"

text \<open>
  Strict decoding: the text is read in groups of four characters of the alphabet; only the
  last group may end in one or two \<^verbatim>\<open>=\<close>. Anything else is rejected.
\<close>

definition decode_group :: "char \<Rightarrow> char \<Rightarrow> char \<Rightarrow> char \<Rightarrow> Buffer option" where
  "decode_group c1 c2 c3 c4 =
     (case (b64_index c1, b64_index c2, b64_index c3, b64_index c4) of
        (Some i, Some j, Some k, Some l) \<Rightarrow>
          Some [of_nat (i * 4 + j div 16), of_nat ((j mod 16) * 16 + k div 4),
                of_nat ((k mod 4) * 64 + l)]
      | _ \<Rightarrow> None)"

definition decode_last :: "char \<Rightarrow> char \<Rightarrow> char \<Rightarrow> Buffer option" where
  "decode_last c1 c2 c3 =
     (case (b64_index c1, b64_index c2) of
        (Some i, Some j) \<Rightarrow>
          (if c3 = CHR ''='' then Some [of_nat (i * 4 + j div 16)]
           else (case b64_index c3 of
                   Some k \<Rightarrow> Some [of_nat (i * 4 + j div 16), of_nat ((j mod 16) * 16 + k div 4)]
                 | None \<Rightarrow> None))
      | _ \<Rightarrow> None)"

fun base64_decode :: "string \<Rightarrow> Buffer option" where
  "base64_decode [] = Some []"
| "base64_decode (c1 # c2 # c3 # c4 # rest) =
     (if rest = [] \<and> c4 = CHR ''='' then decode_last c1 c2 c3
      else (case decode_group c1 c2 c3 c4 of
              None \<Rightarrow> None
            | Some bs \<Rightarrow> map_option (\<lambda>more. bs @ more) (base64_decode rest)))"
| "base64_decode _ = None"

subsection \<open>File type detection\<close>

text \<open>
  Modelled from the spec: \<^verbatim>\<open>detectFileType\<close> is imported from \<^verbatim>\<open>media.js\<close>, which is
  not among the sources. The spec (4.2) describes it as a case-insensitive lookup of the
  file name's extension in a fixed table, with \<^verbatim>\<open>stream\<close> for an unknown or missing
  extension.
\<close>

definition toLowerCase_char :: "char \<Rightarrow> char" where
  "toLowerCase_char c =
     (case map_of (zip ''ABCDEFGHIJKLMNOPQRSTUVWXYZ'' ''abcdefghijklmnopqrstuvwxyz'') c of
        None \<Rightarrow> c
      | Some l \<Rightarrow> l)"

definition extension :: "string \<Rightarrow> string" where
  "extension fileName =
     (if CHR ''.'' \<in> set fileName
      then CHR ''.'' # rev (takeWhile (\<lambda>x. x \<noteq> CHR ''.'') (rev fileName))
      else [])"

definition detectFileType :: "string \<Rightarrow> string" where
  "detectFileType fileName =
     (let ext = map toLowerCase_char (extension fileName)
      in if ext = ''.opus'' then ''opus''
         else if ext = ''.mp4'' then ''mp4''
         else if ext = ''.pdf'' then ''pdf''
         else if ext = ''.doc'' \<or> ext = ''.docx'' then ''doc''
         else if ext = ''.xls'' \<or> ext = ''.xlsx'' then ''xls''
         else if ext = ''.ppt'' \<or> ext = ''.pptx'' then ''ppt''
         else ''stream'')"

section \<open>Result envelopes\<close>

text \<open>
  Modelled from the spec: the result types of the media primitives are declared in
  \<^verbatim>\<open>media.js\<close>, which is not among the sources. By the spec (section 3) a download
  result is the raw byte payload, an optional declared content type and, for message
  attachments, an optional original file name; the pipelines read exactly these three
  fields (\<^verbatim>\<open>result.buffer\<close>, \<^verbatim>\<open>result.contentType\<close>, \<^verbatim>\<open>result.fileName\<close>). An
  absent optional field is \<^verbatim>\<open>None\<close>. Upload and send results are plain objects whose
  fields the pipelines never read.
\<close>

record DownloadResult =
  buffer :: Buffer
  contentType :: "string option"
  fileName :: "string option"

record content_item =
  type :: string
  "text" :: string

text \<open>
  The \<^verbatim>\<open>details\<close> of a success: the primitive's object, or for downloads the spread
  \<^verbatim>\<open>{ ...result, dataUrl }\<close>.
\<close>

datatype details_val = DJson jsobj | DDownload DownloadResult string

text \<open>
  The returned object literal. A field that the literal does not have is \<^verbatim>\<open>None\<close>.
\<close>

record envelope =
  content :: "content_item list"
  details :: "details_val option"
  error :: "string option"

definition json :: "jsobj \<Rightarrow> envelope" where
  "json data =
     \<lparr>content = [\<lparr>type = ''text'', text = JSON_stringify data\<rparr>],
      details = Some (DJson data),
      error = None\<rparr>"

text \<open>
  \<^verbatim>\<open>errResult\<close> returns the failure envelope, unless \<^verbatim>\<open>String(err)\<close> throws: then
  \<^verbatim>\<open>errResult\<close> throws that (\<^verbatim>\<open>Inl\<close>).
\<close>

definition errResult :: "errval \<Rightarrow> errval + envelope" where
  "errResult err =
     (case (case err of ErrorObj m \<Rightarrow> Inr m | NonError v \<Rightarrow> js_String v) of
        Inl thrown \<Rightarrow> Inl thrown
      | Inr message \<Rightarrow>
          Inr \<lparr>content = [\<lparr>type = ''text'', text = ''Error: '' @ message\<rparr>],
               details = None,
               error = Some message\<rparr>)"

definition CH :: string where
  "CH = ''feishu-new''"

definition buildCfg :: "jsobj \<Rightarrow> jsval" where
  "buildCfg feishuCfg = JObj [(''channels'', JObj [(CH, JObj feishuCfg)])]"

section \<open>The outside world\<close>

text \<open>
  The pipelines read \<^verbatim>\<open>process.env.HOME\<close>, probe the file system with
  \<^verbatim>\<open>fs.existsSync\<close> (which never throws) and await the six media primitives, each of
  which either resolves to a result or rejects with a thrown value. The environment gives
  the outcome of every such call; every call a pipeline makes is recorded, in order.
\<close>

datatype call =
    ExistsSync string
  | UploadImageFeishu jsval string string
  | UploadFileFeishu jsval string string string "int option"
  | DownloadImageFeishu jsval "string option"
  | DownloadMessageResourceFeishu jsval "string option" "string option" string
  | SendImageFeishu jsval "string option" "string option" "string option"
  | SendFileFeishu jsval "string option" "string option" "string option"

record env =
  HOME :: "string option"
  existsSync :: "string \<Rightarrow> bool"
  uploadImageFeishu :: "jsval \<Rightarrow> string \<Rightarrow> string \<Rightarrow> errval + jsobj"
  uploadFileFeishu :: "jsval \<Rightarrow> string \<Rightarrow> string \<Rightarrow> string \<Rightarrow> int option \<Rightarrow> errval + jsobj"
  downloadImageFeishu :: "jsval \<Rightarrow> string option \<Rightarrow> errval + DownloadResult"
  downloadMessageResourceFeishu ::
    "jsval \<Rightarrow> string option \<Rightarrow> string option \<Rightarrow> string \<Rightarrow> errval + DownloadResult"
  sendImageFeishu :: "jsval \<Rightarrow> string option \<Rightarrow> string option \<Rightarrow> string option \<Rightarrow> errval + jsobj"
  sendFileFeishu :: "jsval \<Rightarrow> string option \<Rightarrow> string option \<Rightarrow> string option \<Rightarrow> errval + jsobj"

text \<open>The calls that reach the media primitives (everything but the existence probe).\<close>

fun is_transfer :: "call \<Rightarrow> bool" where
  "is_transfer (ExistsSync p) = False"
| "is_transfer c = True"

type_synonym 'a traced = "'a \<times> call list"

text \<open>
  The outcome of an asynchronous function: the promise is fulfilled with an envelope
  (\<^verbatim>\<open>Inr\<close>) or rejected with a thrown value (\<^verbatim>\<open>Inl\<close>).
\<close>

type_synonym outcome = "errval + envelope"

text \<open>
  \<^verbatim>\<open>try { ... } catch (err) { return handler(err) }\<close>: the body either returns an
  envelope or throws; a thrown value goes to the handler, and what the handler itself throws
  is not caught.
\<close>

definition try_catch :: "outcome traced \<Rightarrow> (errval \<Rightarrow> outcome) \<Rightarrow> outcome traced" where
  "try_catch body handler =
     (case fst body of
        Inl err \<Rightarrow> (handler err, snd body)
      | Inr v \<Rightarrow> (Inr v, snd body))"

text \<open>\<^verbatim>\<open>a || b\<close> on an optional string: an absent or empty \<^verbatim>\<open>a\<close> gives \<^verbatim>\<open>b\<close>.\<close>

definition js_or :: "string option \<Rightarrow> string \<Rightarrow> string" where
  "js_or a b = (case a of None \<Rightarrow> b | Some s \<Rightarrow> if s = [] then b else s)"

text \<open>\<^verbatim>\<open>a ?? b\<close> and a destructuring default: only an absent \<^verbatim>\<open>a\<close> gives \<^verbatim>\<open>b\<close>.\<close>

definition js_default :: "string option \<Rightarrow> string \<Rightarrow> string" where
  "js_default a b = (case a of None \<Rightarrow> b | Some s \<Rightarrow> s)"

section \<open>Tool implementations\<close>

text \<open>
  The fields of \<^verbatim>\<open>params\<close> are the arguments of each pipeline. The path of an upload is a
  string (the execute function has checked it); every other field is passed through
  unchecked by the execute functions and so may be absent, whatever the TypeScript
  annotation says. Each pipeline returns its envelope together with the calls it made.
\<close>

text \<open>
  The home-directory expansion that \<^verbatim>\<open>doUploadImage\<close> and \<^verbatim>\<open>doUploadFile\<close> both
  write out: \<^verbatim>\<open>p.startsWith("~") ? p.replace("~", process.env.HOME ?? "") : p\<close>.
\<close>

definition resolvePath :: "env \<Rightarrow> string \<Rightarrow> string" where
  "resolvePath w p =
     (if startsWith p ''~'' then replace p (CHR ''~'') (js_default (HOME w) []) else p)"

definition doUploadImage :: "env \<Rightarrow> jsobj \<Rightarrow> string \<Rightarrow> string option \<Rightarrow> outcome traced" where
  "doUploadImage w feishuCfg path imageType_opt =
     try_catch
       (let imagePath = path;
            imageType = js_default imageType_opt ''message'';
            resolvedPath = resolvePath w imagePath
        in if \<not> existsSync w resolvedPath
           then (errResult (ErrorObj (''Image file not found: '' @ resolvedPath)),
                 [ExistsSync resolvedPath])
           else (case uploadImageFeishu w (buildCfg feishuCfg) resolvedPath imageType of
                   Inl err \<Rightarrow>
                     (Inl err,
                      [ExistsSync resolvedPath,
                       UploadImageFeishu (buildCfg feishuCfg) resolvedPath imageType])
                 | Inr result \<Rightarrow>
                     (Inr (json result),
                      [ExistsSync resolvedPath,
                       UploadImageFeishu (buildCfg feishuCfg) resolvedPath imageType])))
       errResult"

definition doUploadFile ::
  "env \<Rightarrow> jsobj \<Rightarrow> string \<Rightarrow> string option \<Rightarrow> string option \<Rightarrow> int option \<Rightarrow> outcome traced" where
  "doUploadFile w feishuCfg path fileName_opt fileType_opt duration =
     try_catch
       (let filePath = path;
            resolvedPath = resolvePath w filePath
        in if \<not> existsSync w resolvedPath
           then (errResult (ErrorObj (''File not found: '' @ resolvedPath)),
                 [ExistsSync resolvedPath])
           else (let name = js_or fileName_opt (basename resolvedPath);
                     type = js_or fileType_opt (detectFileType name)
                 in (case uploadFileFeishu w (buildCfg feishuCfg) resolvedPath name type duration of
                       Inl err \<Rightarrow>
                         (Inl err,
                          [ExistsSync resolvedPath,
                           UploadFileFeishu (buildCfg feishuCfg) resolvedPath name type duration])
                     | Inr result \<Rightarrow>
                         (Inr (json result),
                          [ExistsSync resolvedPath,
                           UploadFileFeishu (buildCfg feishuCfg) resolvedPath name type duration]))))
       errResult"

definition doDownloadImage :: "env \<Rightarrow> jsobj \<Rightarrow> string option \<Rightarrow> outcome traced" where
  "doDownloadImage w feishuCfg imageKey =
     try_catch
       (case downloadImageFeishu w (buildCfg feishuCfg) imageKey of
          Inl err \<Rightarrow> (Inl err, [DownloadImageFeishu (buildCfg feishuCfg) imageKey])
        | Inr result \<Rightarrow>
            (let base64 = toString_base64 (buffer result);
                 dataUrl = ''data:'' @ js_or (contentType result) ''image/png''
                           @ '';base64,'' @ base64
             in (Inr \<lparr>content =
                        [\<lparr>type = ''text'',
                          text = ''Downloaded image ('' @ show_nat (length (buffer result))
                                 @ '' bytes, type: '' @ js_or (contentType result) ''unknown''
                                 @ '')''\<rparr>],
                      details = Some (DDownload result dataUrl),
                      error = None\<rparr>,
                 [DownloadImageFeishu (buildCfg feishuCfg) imageKey])))
       errResult"

definition doDownloadFile ::
  "env \<Rightarrow> jsobj \<Rightarrow> string option \<Rightarrow> string option \<Rightarrow> string option \<Rightarrow> outcome traced" where
  "doDownloadFile w feishuCfg messageId fileKey type_opt =
     try_catch
       (let type = js_default type_opt ''file''
        in (case downloadMessageResourceFeishu w (buildCfg feishuCfg) messageId fileKey type of
              Inl err \<Rightarrow>
                (Inl err, [DownloadMessageResourceFeishu (buildCfg feishuCfg) messageId fileKey type])
            | Inr result \<Rightarrow>
                (let base64 = toString_base64 (buffer result);
                     dataUrl = ''data:'' @ js_or (contentType result) ''application/octet-stream''
                               @ '';base64,'' @ base64
                 in (Inr \<lparr>content =
                            [\<lparr>type = ''text'',
                              text = ''Downloaded file ('' @ show_nat (length (buffer result))
                                     @ '' bytes, type: '' @ js_or (contentType result) ''unknown''
                                     @ '', name: '' @ js_or (fileName result) ''unknown''
                                     @ '')''\<rparr>],
                          details = Some (DDownload result dataUrl),
                          error = None\<rparr>,
                     [DownloadMessageResourceFeishu (buildCfg feishuCfg) messageId fileKey type]))))
       errResult"

definition doSendImage ::
  "env \<Rightarrow> jsobj \<Rightarrow> string option \<Rightarrow> string option \<Rightarrow> string option \<Rightarrow> outcome traced" where
  "doSendImage w feishuCfg to imageKey replyToMessageId =
     try_catch
       (case sendImageFeishu w (buildCfg feishuCfg) to imageKey replyToMessageId of
          Inl err \<Rightarrow> (Inl err, [SendImageFeishu (buildCfg feishuCfg) to imageKey replyToMessageId])
        | Inr result \<Rightarrow>
            (Inr (json result), [SendImageFeishu (buildCfg feishuCfg) to imageKey replyToMessageId]))
       errResult"

definition doSendFile ::
  "env \<Rightarrow> jsobj \<Rightarrow> string option \<Rightarrow> string option \<Rightarrow> string option \<Rightarrow> outcome traced" where
  "doSendFile w feishuCfg to fileKey replyToMessageId =
     try_catch
       (case sendFileFeishu w (buildCfg feishuCfg) to fileKey replyToMessageId of
          Inl err \<Rightarrow> (Inl err, [SendFileFeishu (buildCfg feishuCfg) to fileKey replyToMessageId])
        | Inr result \<Rightarrow>
            (Inr (json result), [SendFileFeishu (buildCfg feishuCfg) to fileKey replyToMessageId]))
       errResult"

section \<open>Tool registration: the six execute functions\<close>

text \<open>
  Each tool's \<^verbatim>\<open>execute(_toolCallId, params)\<close> reads the fields of \<^verbatim>\<open>params\<close> that its
  schema declares as strings (\<^verbatim>\<open>duration\<close> as a number); an absent field is \<^verbatim>\<open>None\<close>.
  \<^verbatim>\<open>!params.path\<close> holds for an absent and for an empty path.
\<close>

definition path_is_required :: string where
  "path_is_required = CHR 0x27 # ''path'' @ CHR 0x27 # '' is required''"

definition feishu_upload_image ::
  "env \<Rightarrow> jsobj \<Rightarrow> string option \<Rightarrow> string option \<Rightarrow> outcome traced" where
  "feishu_upload_image w feishuCfg path_opt imageType_opt =
     (case path_opt of
        None \<Rightarrow> (errResult (NonError (JStr path_is_required)), [])
      | Some path \<Rightarrow>
          if path = [] then (errResult (NonError (JStr path_is_required)), [])
          else doUploadImage w feishuCfg path imageType_opt)"

definition feishu_upload_file ::
  "env \<Rightarrow> jsobj \<Rightarrow> string option \<Rightarrow> string option \<Rightarrow> string option \<Rightarrow> int option
    \<Rightarrow> outcome traced" where
  "feishu_upload_file w feishuCfg path_opt fileName_opt fileType_opt duration =
     (case path_opt of
        None \<Rightarrow> (errResult (NonError (JStr path_is_required)), [])
      | Some path \<Rightarrow>
          if path = [] then (errResult (NonError (JStr path_is_required)), [])
          else doUploadFile w feishuCfg path fileName_opt fileType_opt duration)"

definition feishu_download_image :: "env \<Rightarrow> jsobj \<Rightarrow> string option \<Rightarrow> outcome traced" where
  "feishu_download_image w feishuCfg imageKey = doDownloadImage w feishuCfg imageKey"

definition feishu_download_file ::
  "env \<Rightarrow> jsobj \<Rightarrow> string option \<Rightarrow> string option \<Rightarrow> string option \<Rightarrow> outcome traced" where
  "feishu_download_file w feishuCfg messageId fileKey type_opt =
     doDownloadFile w feishuCfg messageId fileKey type_opt"

definition feishu_send_image ::
  "env \<Rightarrow> jsobj \<Rightarrow> string option \<Rightarrow> string option \<Rightarrow> string option \<Rightarrow> outcome traced" where
  "feishu_send_image w feishuCfg to imageKey replyToMessageId =
     doSendImage w feishuCfg to imageKey replyToMessageId"

definition feishu_send_file ::
  "env \<Rightarrow> jsobj \<Rightarrow> string option \<Rightarrow> string option \<Rightarrow> string option \<Rightarrow> outcome traced" where
  "feishu_send_file w feishuCfg to fileKey replyToMessageId =
     doSendFile w feishuCfg to fileKey replyToMessageId"

section \<open>The older variant of the media tools\<close>

text \<open>
  The second copy of the file keeps helpers of its own (\<^verbatim>\<open>json\<close> and \<^verbatim>\<open>error\<close>, here
  \<^verbatim>\<open>json_old\<close> and \<^verbatim>\<open>error_old\<close>), builds the configuration under the channel key
  \<^verbatim>\<open>feishu\<close>, and names its pipelines \<^verbatim>\<open>doFeishu...\<close>.
\<close>

definition json_old :: "jsobj \<Rightarrow> envelope" where
  "json_old data =
     \<lparr>content = [\<lparr>type = ''text'', text = JSON_stringify data\<rparr>],
      details = Some (DJson data),
      error = None\<rparr>"

definition error_old :: "errval \<Rightarrow> errval + envelope" where
  "error_old err =
     (case (case err of ErrorObj m \<Rightarrow> Inr m | NonError v \<Rightarrow> js_String v) of
        Inl thrown \<Rightarrow> Inl thrown
      | Inr message \<Rightarrow>
          Inr \<lparr>content = [\<lparr>type = ''text'', text = ''Error: '' @ message\<rparr>],
               details = None,
               error = Some message\<rparr>)"

definition cfg_old :: "jsobj \<Rightarrow> jsval" where
  "cfg_old feishuCfg = JObj [(''channels'', JObj [(''feishu'', JObj feishuCfg)])]"

definition resolvePath_old :: "env \<Rightarrow> string \<Rightarrow> string" where
  "resolvePath_old w p =
     (if startsWith p ''~'' then replace p (CHR ''~'') (js_default (HOME w) []) else p)"

definition doFeishuUploadImage ::
  "env \<Rightarrow> jsobj \<Rightarrow> string \<Rightarrow> string option \<Rightarrow> outcome traced" where
  "doFeishuUploadImage w feishuCfg path imageType_opt =
     try_catch
       (let imagePath = path;
            imageType = js_default imageType_opt ''message'';
            resolvedPath = resolvePath_old w imagePath
        in if \<not> existsSync w resolvedPath
           then (error_old (ErrorObj (''Image file not found: '' @ resolvedPath)),
                 [ExistsSync resolvedPath])
           else (case uploadImageFeishu w (cfg_old feishuCfg) resolvedPath imageType of
                   Inl err \<Rightarrow>
                     (Inl err,
                      [ExistsSync resolvedPath,
                       UploadImageFeishu (cfg_old feishuCfg) resolvedPath imageType])
                 | Inr result \<Rightarrow>
                     (Inr (json_old result),
                      [ExistsSync resolvedPath,
                       UploadImageFeishu (cfg_old feishuCfg) resolvedPath imageType])))
       error_old"

definition doFeishuUploadFile ::
  "env \<Rightarrow> jsobj \<Rightarrow> string \<Rightarrow> string option \<Rightarrow> string option \<Rightarrow> int option \<Rightarrow> outcome traced" where
  "doFeishuUploadFile w feishuCfg path fileName_opt fileType_opt duration =
     try_catch
       (let filePath = path;
            resolvedPath = resolvePath_old w filePath
        in if \<not> existsSync w resolvedPath
           then (error_old (ErrorObj (''File not found: '' @ resolvedPath)),
                 [ExistsSync resolvedPath])
           else (let name = js_or fileName_opt (basename resolvedPath);
                     type = js_or fileType_opt (detectFileType name)
                 in (case uploadFileFeishu w (cfg_old feishuCfg) resolvedPath name type duration of
                       Inl err \<Rightarrow>
                         (Inl err,
                          [ExistsSync resolvedPath,
                           UploadFileFeishu (cfg_old feishuCfg) resolvedPath name type duration])
                     | Inr result \<Rightarrow>
                         (Inr (json_old result),
                          [ExistsSync resolvedPath,
                           UploadFileFeishu (cfg_old feishuCfg) resolvedPath name type duration]))))
       error_old"

definition doFeishuDownloadImage :: "env \<Rightarrow> jsobj \<Rightarrow> string option \<Rightarrow> outcome traced" where
  "doFeishuDownloadImage w feishuCfg imageKey =
     try_catch
       (case downloadImageFeishu w (cfg_old feishuCfg) imageKey of
          Inl err \<Rightarrow> (Inl err, [DownloadImageFeishu (cfg_old feishuCfg) imageKey])
        | Inr result \<Rightarrow>
            (let base64 = toString_base64 (buffer result);
                 dataUrl = ''data:'' @ js_or (contentType result) ''image/png''
                           @ '';base64,'' @ base64
             in (Inr \<lparr>content =
                        [\<lparr>type = ''text'',
                          text = ''Downloaded image ('' @ show_nat (length (buffer result))
                                 @ '' bytes, type: '' @ js_or (contentType result) ''unknown''
                                 @ '')''\<rparr>],
                      details = Some (DDownload result dataUrl),
                      error = None\<rparr>,
                 [DownloadImageFeishu (cfg_old feishuCfg) imageKey])))
       error_old"

definition doFeishuDownloadFile ::
  "env \<Rightarrow> jsobj \<Rightarrow> string option \<Rightarrow> string option \<Rightarrow> string option \<Rightarrow> outcome traced" where
  "doFeishuDownloadFile w feishuCfg messageId fileKey type_opt =
     try_catch
       (let type = js_default type_opt ''file''
        in (case downloadMessageResourceFeishu w (cfg_old feishuCfg) messageId fileKey type of
              Inl err \<Rightarrow>
                (Inl err, [DownloadMessageResourceFeishu (cfg_old feishuCfg) messageId fileKey type])
            | Inr result \<Rightarrow>
                (let base64 = toString_base64 (buffer result);
                     dataUrl = ''data:'' @ js_or (contentType result) ''application/octet-stream''
                               @ '';base64,'' @ base64
                 in (Inr \<lparr>content =
                            [\<lparr>type = ''text'',
                              text = ''Downloaded file ('' @ show_nat (length (buffer result))
                                     @ '' bytes, type: '' @ js_or (contentType result) ''unknown''
                                     @ '', name: '' @ js_or (fileName result) ''unknown''
                                     @ '')''\<rparr>],
                          details = Some (DDownload result dataUrl),
                          error = None\<rparr>,
                     [DownloadMessageResourceFeishu (cfg_old feishuCfg) messageId fileKey type]))))
       error_old"

definition doFeishuSendImage ::
  "env \<Rightarrow> jsobj \<Rightarrow> string option \<Rightarrow> string option \<Rightarrow> string option \<Rightarrow> outcome traced" where
  "doFeishuSendImage w feishuCfg to imageKey replyToMessageId =
     try_catch
       (case sendImageFeishu w (cfg_old feishuCfg) to imageKey replyToMessageId of
          Inl err \<Rightarrow> (Inl err, [SendImageFeishu (cfg_old feishuCfg) to imageKey replyToMessageId])
        | Inr result \<Rightarrow>
            (Inr (json_old result),
             [SendImageFeishu (cfg_old feishuCfg) to imageKey replyToMessageId]))
       error_old"

definition doFeishuSendFile ::
  "env \<Rightarrow> jsobj \<Rightarrow> string option \<Rightarrow> string option \<Rightarrow> string option \<Rightarrow> outcome traced" where
  "doFeishuSendFile w feishuCfg to fileKey replyToMessageId =
     try_catch
       (case sendFileFeishu w (cfg_old feishuCfg) to fileKey replyToMessageId of
          Inl err \<Rightarrow> (Inl err, [SendFileFeishu (cfg_old feishuCfg) to fileKey replyToMessageId])
        | Inr result \<Rightarrow>
            (Inr (json_old result),
             [SendFileFeishu (cfg_old feishuCfg) to fileKey replyToMessageId]))
       error_old"

text \<open>
  The older execute functions differ from the newer ones only in the envelope they build
  for a missing \<^verbatim>\<open>path\<close>.
\<close>

definition missing_path_old :: "string \<Rightarrow> envelope" where
  "missing_path_old hint =
     \<lparr>content =
        [\<lparr>type = ''text'',
          text = ''Error: '' @ [CHR 0x27] @ ''path'' @ [CHR 0x27] @ '' parameter is required ('' @ hint @ '')''\<rparr>],
      details = None,
      error = Some ''Missing required parameter''\<rparr>"

definition feishu_upload_image_old ::
  "env \<Rightarrow> jsobj \<Rightarrow> string option \<Rightarrow> string option \<Rightarrow> outcome traced" where
  "feishu_upload_image_old w feishuCfg path_opt imageType_opt =
     (case path_opt of
        None \<Rightarrow> (Inr (missing_path_old ''local file path to the image''), [])
      | Some path \<Rightarrow>
          if path = [] then (Inr (missing_path_old ''local file path to the image''), [])
          else doFeishuUploadImage w feishuCfg path imageType_opt)"

definition feishu_upload_file_old ::
  "env \<Rightarrow> jsobj \<Rightarrow> string option \<Rightarrow> string option \<Rightarrow> string option \<Rightarrow> int option
    \<Rightarrow> outcome traced" where
  "feishu_upload_file_old w feishuCfg path_opt fileName_opt fileType_opt duration =
     (case path_opt of
        None \<Rightarrow> (Inr (missing_path_old ''local file path''), [])
      | Some path \<Rightarrow>
          if path = [] then (Inr (missing_path_old ''local file path''), [])
          else doFeishuUploadFile w feishuCfg path fileName_opt fileType_opt duration)"

section \<open>Observations and example environments\<close>

text \<open>
  The data URL of a download envelope, and its base64 portion: the text after the last
  comma (the base64 alphabet has no comma).
\<close>

definition dataUrl_of :: "envelope \<Rightarrow> string option" where
  "dataUrl_of e = (case details e of Some (DDownload r url) \<Rightarrow> Some url | _ \<Rightarrow> None)"

definition base64_portion :: "string \<Rightarrow> string" where
  "base64_portion url = rev (takeWhile (\<lambda>c. c \<noteq> CHR '','') (rev url))"

text \<open>
  An environment in which every primitive succeeds and only \<^verbatim>\<open>/tmp/report.pdf\<close> exists;
  the image download returns seventeen bytes of type \<^verbatim>\<open>image/png\<close>.
\<close>

definition payload17 :: Buffer where
  "payload17 = [137, 80, 78, 71, 13, 10, 26, 10, 0, 0, 0, 13, 73, 72, 68, 82, 255]"

definition stub_ok :: env where
  "stub_ok =
     \<lparr>HOME = Some ''/home/u'',
      existsSync = (\<lambda>p. p = ''/tmp/report.pdf''),
      uploadImageFeishu = (\<lambda>cfg image imageType. Inr [(''imageKey'', JStr ''img_1'')]),
      uploadFileFeishu = (\<lambda>cfg file name ft duration. Inr [(''fileKey'', JStr ''file_1'')]),
      downloadImageFeishu =
        (\<lambda>cfg imageKey. Inr \<lparr>buffer = payload17, contentType = Some ''image/png'', fileName = None\<rparr>),
      downloadMessageResourceFeishu =
        (\<lambda>cfg messageId fileKey kind.
           Inr \<lparr>buffer = [1, 2, 3, 4], contentType = None, fileName = Some ''a.bin''\<rparr>),
      sendImageFeishu = (\<lambda>cfg to imageKey replyTo. Inr [(''messageId'', JStr ''om_1'')]),
      sendFileFeishu = (\<lambda>cfg to fileKey replyTo. Inr [(''messageId'', JStr ''om_2'')])\<rparr>"

text \<open>
  The failure shape as the spec words it (section 6): one text item \<^verbatim>\<open>Error: \<close> plus the
  message, the error field set to the message, no details. The message of a thrown value is
  an \<^verbatim>\<open>Error\<close>'s \<^verbatim>\<open>message\<close> or the \<^verbatim>\<open>String()\<close> of anything else, when that
  conversion does not throw.
\<close>

definition spec_failure_envelope :: "string \<Rightarrow> envelope" where
  "spec_failure_envelope message =
     \<lparr>content = [\<lparr>type = ''text'', text = ''Error: '' @ message\<rparr>],
      details = None,
      error = Some message\<rparr>"

definition message_of :: "errval \<Rightarrow> errval + string" where
  "message_of err = (case err of ErrorObj m \<Rightarrow> Inr m | NonError v \<Rightarrow> js_String v)"


text \<open>
  The two halves of the envelope invariant, and the text of the first content item.
\<close>

definition exactly_one_shape :: "envelope \<Rightarrow> bool" where
  "exactly_one_shape e = ((details e = None) \<noteq> (error e = None))"

definition first_is_text :: "envelope \<Rightarrow> bool" where
  "first_is_text e = (case content e of [] \<Rightarrow> False | c # cs \<Rightarrow> type c = ''text'')"

definition summary_text :: "envelope \<Rightarrow> string" where
  "summary_text e = (case content e of [] \<Rightarrow> [] | c # cs \<Rightarrow> text c)"

text \<open>
  An environment without a home directory in which every path exists and every primitive
  rejects, some with an \<^verbatim>\<open>Error\<close> and some with another value.
\<close>

definition stub_failing :: env where
  "stub_failing =
     \<lparr>HOME = None,
      existsSync = (\<lambda>p. True),
      uploadImageFeishu = (\<lambda>cfg image imageType. Inl (ErrorObj ''image too large'')),
      uploadFileFeishu = (\<lambda>cfg file name ft duration. Inl (ErrorObj ''unsupported format'')),
      downloadImageFeishu = (\<lambda>cfg imageKey. Inl (NonError (JNum 404))),
      downloadMessageResourceFeishu = (\<lambda>cfg messageId fileKey kind. Inl (ErrorObj ''NotFound'')),
      sendImageFeishu = (\<lambda>cfg to imageKey replyTo. Inl (NonError (JStr ''invalid destination''))),
      sendFileFeishu = (\<lambda>cfg to fileKey replyTo. Inl (NonError JUndefined))\<rparr>"


section \<open>Base64 round trip\<close>

lemma index_of_nth: "distinct xs \<Longrightarrow> n < length xs \<Longrightarrow> index_of (xs ! n) xs = Some n"
proof (induction xs arbitrary: n)
  case Nil
  then show ?case by simp
next
  case (Cons x xs)
  show ?case
  proof (cases n)
    case 0
    then show ?thesis by simp
  next
    case (Suc m)
    with Cons.prems have "m < length xs" "distinct xs" "xs ! m \<noteq> x"
      by auto
    with Cons.IH [of m] Suc show ?thesis by simp
  qed
qed

lemma b64chars_length: "length b64chars = 64"
  by (simp add: b64chars_def)

lemma b64chars_distinct: "distinct b64chars"
  by (simp add: b64chars_def)

lemma b64chars_no_pad: "CHR ''='' \<notin> set b64chars"
  by (simp add: b64chars_def)

lemma b64_index_char: "n < 64 \<Longrightarrow> b64_index (b64_char n) = Some n"
  unfolding b64_index_def b64_char_def
  using index_of_nth [OF b64chars_distinct, of n] by (simp add: b64chars_length)

lemma b64_char_not_pad: "b64_char n \<noteq> CHR ''=''"
proof -
  have "n mod 64 < length b64chars" by (simp add: b64chars_length)
  then have "b64chars ! (n mod 64) \<in> set b64chars" by (rule nth_mem)
  with b64chars_no_pad show ?thesis unfolding b64_char_def by metis
qed




lemma sextet_bounds:
  fixes x y z :: nat
  assumes "x < 256" "y < 256" "z < 256"
  shows "x div 4 < 64" "(x mod 4) * 16 + y div 16 < 64" "(y mod 16) * 4 + z div 64 < 64"
    "z mod 64 < 64" "(x mod 4) * 16 < 64" "(y mod 16) * 4 < 64"
  using assms by simp_all

lemma octet_first:
  fixes x y :: nat
  assumes "y < 256"
  shows "(x div 4) * 4 + ((x mod 4) * 16 + y div 16) div 16 = x"
proof -
  have "y div 16 < 16" using assms by simp
  then have "((x mod 4) * 16 + y div 16) div 16 = x mod 4" by simp
  then show ?thesis by simp
qed


lemma octet_second:
  fixes x y z :: nat
  assumes "y < 256" "z < 256"
  shows "(((x mod 4) * 16 + y div 16) mod 16) * 16 + ((y mod 16) * 4 + z div 64) div 4 = y"
proof -
  have "z div 64 < 4" using assms by simp
  then have a: "((y mod 16) * 4 + z div 64) div 4 = y mod 16" by simp
  have "y div 16 < 16" using assms by simp
  then have b: "((x mod 4) * 16 + y div 16) mod 16 = y div 16" by simp
  show ?thesis unfolding a b by simp
qed

lemma octet_third:
  fixes y z :: nat
  assumes "z < 256"
  shows "(((y mod 16) * 4 + z div 64) mod 4) * 64 + z mod 64 = z"
proof -
  have "z div 64 < 4" using assms by simp
  then have "((y mod 16) * 4 + z div 64) mod 4 = z div 64" by simp
  then show ?thesis by simp
qed

lemma octet_first_padded:
  fixes x :: nat
  shows "(x div 4) * 4 + ((x mod 4) * 16) div 16 = x"
  by simp

lemma octet_second_padded:
  fixes x y :: nat
  assumes "y < 256"
  shows "(((x mod 4) * 16 + y div 16) mod 16) * 16 + ((y mod 16) * 4) div 4 = y"
proof -
  have "y div 16 < 16" using assms by simp
  then have "((x mod 4) * 16 + y div 16) mod 16 = y div 16" by simp
  then show ?thesis by simp
qed

lemma unat_byte_lt: "unat (a :: 8 word) < 256"
  using unsigned_less [of a] by simp

lemma decode_group_encode:
  "decode_group (b64_char (unat a div 4)) (b64_char ((unat a mod 4) * 16 + unat b div 16))
     (b64_char ((unat b mod 16) * 4 + unat c div 64)) (b64_char (unat c mod 64)) = Some [a, b, c]"
  using sextet_bounds [OF unat_byte_lt [of a] unat_byte_lt [of b] unat_byte_lt [of c]]
    octet_first [OF unat_byte_lt [of b], of "unat a"]
    octet_second [OF unat_byte_lt [of b] unat_byte_lt [of c], of "unat a"]
    octet_third [OF unat_byte_lt [of c], of "unat b"]
  by (simp add: decode_group_def b64_index_char)

lemma decode_last_one:
  "decode_last (b64_char (unat a div 4)) (b64_char ((unat a mod 4) * 16)) (CHR ''='') = Some [a]"
  using sextet_bounds [OF unat_byte_lt [of a] unat_byte_lt [of a] unat_byte_lt [of a]]
    octet_first_padded [of "unat a"]
  by (simp add: decode_last_def b64_index_char)

lemma decode_last_two:
  "decode_last (b64_char (unat a div 4)) (b64_char ((unat a mod 4) * 16 + unat b div 16))
     (b64_char ((unat b mod 16) * 4)) = Some [a, b]"
  using sextet_bounds [OF unat_byte_lt [of a] unat_byte_lt [of b] unat_byte_lt [of b]]
    octet_first [OF unat_byte_lt [of b], of "unat a"]
    octet_second_padded [OF unat_byte_lt [of b], of "unat a"]
  by (simp add: decode_last_def b64_index_char b64_char_not_pad)

lemma base64_roundtrip: "base64_decode (toString_base64 bs) = Some bs"
proof (induction bs rule: toString_base64.induct)
  case 1
  show ?case by simp
next
  case (2 a)
  show ?case by (simp add: decode_last_one)
next
  case (3 a b)
  show ?case by (simp add: decode_last_two)
next
  case (4 a b c rest)
  then show ?case by (simp add: decode_group_encode b64_char_not_pad)
qed


lemma b64_char_mem: "b64_char n \<in> set b64chars"
proof -
  have "n mod 64 < length b64chars" by (simp add: b64chars_length)
  then show ?thesis unfolding b64_char_def by (rule nth_mem)
qed

lemma b64chars_no_comma: "CHR '','' \<notin> set b64chars"
  by (simp add: b64chars_def)

lemma b64_char_not_comma: "b64_char n \<noteq> CHR '',''"
  using b64_char_mem [of n] b64chars_no_comma by metis

lemma toString_base64_no_comma: "CHR '','' \<notin> set (toString_base64 bs)"
  by (induction bs rule: toString_base64.induct)
    (simp_all add: b64_char_not_comma b64_char_not_comma [symmetric])

lemma base64_portion_append:
  assumes "CHR '','' \<notin> set p"
  shows "base64_portion (pre @ '','' @ p) = p"
proof -
  have "takeWhile (\<lambda>c. c \<noteq> CHR '','') (rev p @ CHR '','' # rev pre) = rev p"
    using assms by (intro takeWhile_tail [THEN trans]) auto
  then show ?thesis by (simp add: base64_portion_def)
qed

lemma base64_portion_dataUrl:
  "base64_portion (''data:'' @ mime @ '';base64,'' @ toString_base64 bs) = toString_base64 bs"
  using base64_portion_append [OF toString_base64_no_comma, of "''data:'' @ mime @ '';base64''" bs]
  by simp

lemma doDownloadImage_ok:
  assumes "downloadImageFeishu w (buildCfg feishuCfg) imageKey = Inr r"
  shows "\<exists>e. fst (doDownloadImage w feishuCfg imageKey) = Inr e
           \<and> dataUrl_of e
               = Some (''data:'' @ js_or (contentType r) ''image/png'' @ '';base64,''
                       @ toString_base64 (buffer r))"
  using assms by (simp add: doDownloadImage_def try_catch_def dataUrl_of_def Let_def)

lemma doDownloadFile_ok:
  assumes "downloadMessageResourceFeishu w (buildCfg feishuCfg) messageId fileKey
             (js_default type_opt ''file'') = Inr r"
  shows "\<exists>e. fst (doDownloadFile w feishuCfg messageId fileKey type_opt) = Inr e
           \<and> dataUrl_of e
               = Some (''data:'' @ js_or (contentType r) ''application/octet-stream''
                       @ '';base64,'' @ toString_base64 (buffer r))"
  using assms by (simp add: doDownloadFile_def try_catch_def dataUrl_of_def Let_def)

section \<open>Outcomes and calls of the pipelines\<close>

lemma errResult_Inr: "message_of err = Inr m \<Longrightarrow> errResult err = Inr (spec_failure_envelope m)"
  by (simp add: errResult_def spec_failure_envelope_def message_of_def)

lemma errResult_Inl: "message_of err = Inl thrown \<Longrightarrow> errResult err = Inl thrown"
  by (simp add: errResult_def message_of_def)

lemma errResult_Error: "errResult (ErrorObj m) = Inr (spec_failure_envelope m)"
  by (simp add: errResult_Inr message_of_def)

lemma errResult_shape:
  "errResult err = Inr e \<Longrightarrow> exactly_one_shape e \<and> first_is_text e"
  by (auto simp: errResult_def exactly_one_shape_def first_is_text_def split: sum.splits)

lemma try_catch_snd: "snd (try_catch body h) = snd body"
  by (simp add: try_catch_def split: sum.splits)




lemma doUploadImage_result:
  "fst (doUploadImage w feishuCfg path imageType_opt) =
     (if \<not> existsSync w (resolvePath w path)
      then Inr (spec_failure_envelope (''Image file not found: '' @ resolvePath w path))
      else (case uploadImageFeishu w (buildCfg feishuCfg) (resolvePath w path)
                  (js_default imageType_opt ''message'') of
              Inl err \<Rightarrow> errResult err
            | Inr result \<Rightarrow> Inr (json result)))"
  by (simp add: doUploadImage_def try_catch_def errResult_Error Let_def split: sum.splits)

lemma doUploadFile_result:
  "fst (doUploadFile w feishuCfg path fileName_opt fileType_opt duration) =
     (if \<not> existsSync w (resolvePath w path)
      then Inr (spec_failure_envelope (''File not found: '' @ resolvePath w path))
      else (case uploadFileFeishu w (buildCfg feishuCfg) (resolvePath w path)
                  (js_or fileName_opt (basename (resolvePath w path)))
                  (js_or fileType_opt
                     (detectFileType (js_or fileName_opt (basename (resolvePath w path)))))
                  duration of
              Inl err \<Rightarrow> errResult err
            | Inr result \<Rightarrow> Inr (json result)))"
  by (simp add: doUploadFile_def try_catch_def errResult_Error Let_def split: sum.splits)



lemma doSendImage_result:
  "fst (doSendImage w feishuCfg to imageKey replyToMessageId) =
     (case sendImageFeishu w (buildCfg feishuCfg) to imageKey replyToMessageId of
        Inl err \<Rightarrow> errResult err
      | Inr result \<Rightarrow> Inr (json result))"
  by (simp add: doSendImage_def try_catch_def split: sum.splits)

lemma doSendFile_result:
  "fst (doSendFile w feishuCfg to fileKey replyToMessageId) =
     (case sendFileFeishu w (buildCfg feishuCfg) to fileKey replyToMessageId of
        Inl err \<Rightarrow> errResult err
      | Inr result \<Rightarrow> Inr (json result))"
  by (simp add: doSendFile_def try_catch_def split: sum.splits)

lemma shape_failure:
  "exactly_one_shape (spec_failure_envelope m) \<and> first_is_text (spec_failure_envelope m)"
  by (simp add: exactly_one_shape_def first_is_text_def spec_failure_envelope_def)

lemma shape_json: "exactly_one_shape (json d) \<and> first_is_text (json d)"
  by (simp add: exactly_one_shape_def first_is_text_def json_def)

lemma shape_doUploadImage:
  "fst (doUploadImage w c p t) = Inr e \<Longrightarrow> exactly_one_shape e \<and> first_is_text e"
  using shape_failure shape_json errResult_shape
  by (auto simp: doUploadImage_result split: if_splits sum.splits)

lemma shape_doUploadFile:
  "fst (doUploadFile w c p n t d) = Inr e \<Longrightarrow> exactly_one_shape e \<and> first_is_text e"
  using shape_failure shape_json errResult_shape
  by (auto simp: doUploadFile_result split: if_splits sum.splits)

lemma shape_doDownloadImage:
  "fst (doDownloadImage w c k) = Inr e \<Longrightarrow> exactly_one_shape e \<and> first_is_text e"
  using errResult_shape
  by (auto simp: doDownloadImage_def try_catch_def Let_def exactly_one_shape_def
      first_is_text_def split: sum.splits)

lemma shape_doDownloadFile:
  "fst (doDownloadFile w c m k t) = Inr e \<Longrightarrow> exactly_one_shape e \<and> first_is_text e"
  using errResult_shape
  by (auto simp: doDownloadFile_def try_catch_def Let_def exactly_one_shape_def
      first_is_text_def split: sum.splits)

lemma shape_doSendImage:
  "fst (doSendImage w c to k r) = Inr e \<Longrightarrow> exactly_one_shape e \<and> first_is_text e"
  using shape_json errResult_shape
  by (auto simp: doSendImage_result split: sum.splits)

lemma shape_doSendFile:
  "fst (doSendFile w c to k r) = Inr e \<Longrightarrow> exactly_one_shape e \<and> first_is_text e"
  using shape_json errResult_shape
  by (auto simp: doSendFile_result split: sum.splits)

lemma doUploadImage_calls:
  "snd (doUploadImage w feishuCfg path imageType_opt) =
     (if existsSync w (resolvePath w path)
      then [ExistsSync (resolvePath w path),
            UploadImageFeishu (buildCfg feishuCfg) (resolvePath w path)
              (js_default imageType_opt ''message'')]
      else [ExistsSync (resolvePath w path)])"
  by (simp add: doUploadImage_def try_catch_def Let_def split: sum.splits)

lemma doUploadFile_calls:
  "snd (doUploadFile w feishuCfg path fileName_opt fileType_opt duration) =
     (if existsSync w (resolvePath w path)
      then [ExistsSync (resolvePath w path),
            UploadFileFeishu (buildCfg feishuCfg) (resolvePath w path)
              (js_or fileName_opt (basename (resolvePath w path)))
              (js_or fileType_opt
                 (detectFileType (js_or fileName_opt (basename (resolvePath w path)))))
              duration]
      else [ExistsSync (resolvePath w path)])"
  by (simp add: doUploadFile_def try_catch_def Let_def split: sum.splits)

lemma doDownloadImage_calls:
  "snd (doDownloadImage w feishuCfg imageKey) = [DownloadImageFeishu (buildCfg feishuCfg) imageKey]"
  by (simp add: doDownloadImage_def try_catch_def Let_def split: sum.splits)

lemma doDownloadFile_calls:
  "snd (doDownloadFile w feishuCfg messageId fileKey type_opt) =
     [DownloadMessageResourceFeishu (buildCfg feishuCfg) messageId fileKey
        (js_default type_opt ''file'')]"
  by (simp add: doDownloadFile_def try_catch_def Let_def split: sum.splits)

lemma doSendImage_calls:
  "snd (doSendImage w feishuCfg to imageKey replyToMessageId) =
     [SendImageFeishu (buildCfg feishuCfg) to imageKey replyToMessageId]"
  by (simp add: doSendImage_def try_catch_def split: sum.splits)

lemma doSendFile_calls:
  "snd (doSendFile w feishuCfg to fileKey replyToMessageId) =
     [SendFileFeishu (buildCfg feishuCfg) to fileKey replyToMessageId]"
  by (simp add: doSendFile_def try_catch_def split: sum.splits)



lemma resolvePath_other:
  "\<not> startsWith p ''~'' \<Longrightarrow> resolvePath w p = p"
  by (simp add: resolvePath_def)




section \<open>The claims\<close>

text \<open>
  C1 (as amended). When \<^verbatim>\<open>path\<close> is absent, each of the two upload tools returns the
  failure envelope with the fixed message \<^verbatim>\<open>'path' is required\<close> and makes no call at
  all: neither the existence probe of the path resolution nor a media primitive.
\<close>

theorem missing_path_short_circuits:
  "feishu_upload_image w feishuCfg None imageType_opt
     = (Inr (spec_failure_envelope path_is_required), [])
   \<and> feishu_upload_file w feishuCfg None fileName_opt fileType_opt duration
     = (Inr (spec_failure_envelope path_is_required), [])"
  by (simp add: feishu_upload_image_def feishu_upload_file_def errResult_def
      spec_failure_envelope_def)

theorem missing_path_short_circuits_witness:
  "feishu_upload_image stub_ok [] None None
     = (Inr \<lparr>content = [\<lparr>type = ''text'', text = ''Error: '' @ path_is_required\<rparr>],
             details = None, error = Some path_is_required\<rparr>, [])
   \<and> feishu_upload_file stub_ok [] None None None None
     = (Inr \<lparr>content = [\<lparr>type = ''text'', text = ''Error: '' @ path_is_required\<rparr>],
             details = None, error = Some path_is_required\<rparr>, [])"
  using missing_path_short_circuits
    [where w = stub_ok and feishuCfg = "[]" and imageType_opt = None and fileName_opt = None
       and fileType_opt = None and duration = None]
  by (simp add: spec_failure_envelope_def)

text \<open>
  The claim as stated fails for the download and send tools, which make no presence check:
  with the image key absent, \<^verbatim>\<open>feishu_download_image\<close> still calls the media primitive
  and, when that succeeds, returns a success envelope.
\<close>

theorem download_image_absent_key_counterexample:
  "snd (feishu_download_image stub_ok [] None) = [DownloadImageFeishu (buildCfg []) None]
   \<and> (\<exists>e. fst (feishu_download_image stub_ok [] None) = Inr e
          \<and> error e = None \<and> details e \<noteq> None)"
  by (simp add: feishu_download_image_def doDownloadImage_def try_catch_def stub_ok_def Let_def)

text \<open>
  The same holds for the other three: whatever their fields are, absent or not, they call
  their primitive with them. The older variant of the upload tools answers a missing path
  with the error \<^verbatim>\<open>Missing required parameter\<close>.
\<close>

lemma download_and_send_tools_always_call:
  "snd (feishu_download_image w feishuCfg imageKey)
     = [DownloadImageFeishu (buildCfg feishuCfg) imageKey]
   \<and> snd (feishu_download_file w feishuCfg messageId fileKey type_opt)
     = [DownloadMessageResourceFeishu (buildCfg feishuCfg) messageId fileKey
          (js_default type_opt ''file'')]
   \<and> snd (feishu_send_image w feishuCfg to imageKey replyToMessageId)
     = [SendImageFeishu (buildCfg feishuCfg) to imageKey replyToMessageId]
   \<and> snd (feishu_send_file w feishuCfg to fileKey replyToMessageId)
     = [SendFileFeishu (buildCfg feishuCfg) to fileKey replyToMessageId]"
  by (simp add: feishu_download_image_def feishu_download_file_def feishu_send_image_def
      feishu_send_file_def doDownloadImage_calls doDownloadFile_calls doSendImage_calls
      doSendFile_calls)

lemma older_upload_tools_missing_path:
  "feishu_upload_image_old w feishuCfg None imageType_opt
     = (Inr (missing_path_old ''local file path to the image''), [])
   \<and> feishu_upload_file_old w feishuCfg None fileName_opt fileType_opt duration
     = (Inr (missing_path_old ''local file path''), [])
   \<and> error (missing_path_old hint) = Some ''Missing required parameter''"
  by (simp add: feishu_upload_image_old_def feishu_upload_file_old_def missing_path_old_def)





lemma doDownloadImage_roundtrip:
  assumes "downloadImageFeishu w (buildCfg feishuCfg) imageKey = Inr r"
  shows "\<exists>e url. fst (doDownloadImage w feishuCfg imageKey) = Inr e
           \<and> dataUrl_of e = Some url
           \<and> base64_decode (base64_portion url) = Some (buffer r)"
  using doDownloadImage_ok [OF assms] base64_portion_dataUrl base64_roundtrip by metis

lemma doDownloadFile_roundtrip:
  assumes "downloadMessageResourceFeishu w (buildCfg feishuCfg) messageId fileKey
             (js_default type_opt ''file'') = Inr r"
  shows "\<exists>e url. fst (doDownloadFile w feishuCfg messageId fileKey type_opt) = Inr e
           \<and> dataUrl_of e = Some url
           \<and> base64_decode (base64_portion url) = Some (buffer r)"
  using doDownloadFile_ok [OF assms] base64_portion_dataUrl base64_roundtrip by metis

text \<open>
  C3. For both binary downloads and every byte payload that the media primitive returns,
  the operation returns an envelope that carries a data URL whose base64 portion decodes to
  exactly that payload.
\<close>

theorem download_dataUrl_roundtrip:
  "(downloadImageFeishu w (buildCfg feishuCfg) imageKey = Inr r \<longrightarrow>
      (\<exists>e url. fst (doDownloadImage w feishuCfg imageKey) = Inr e
             \<and> dataUrl_of e = Some url
             \<and> base64_decode (base64_portion url) = Some (buffer r)))
   \<and> (downloadMessageResourceFeishu w (buildCfg feishuCfg) messageId fileKey
         (js_default type_opt ''file'') = Inr r' \<longrightarrow>
      (\<exists>e url. fst (doDownloadFile w feishuCfg messageId fileKey type_opt) = Inr e
             \<and> dataUrl_of e = Some url
             \<and> base64_decode (base64_portion url) = Some (buffer r')))"
  using doDownloadImage_roundtrip doDownloadFile_roundtrip by blast

theorem download_dataUrl_roundtrip_witness:
  "(\<exists>e url. fst (doDownloadImage stub_ok [] (Some ''img_123'')) = Inr e
          \<and> dataUrl_of e = Some url
          \<and> base64_decode (base64_portion url) = Some payload17)
   \<and> (\<exists>e url. fst (doDownloadFile stub_ok [] (Some ''om_1'') (Some ''file_1'') None) = Inr e
          \<and> dataUrl_of e = Some url
          \<and> base64_decode (base64_portion url) = Some [1, 2, 3, 4])"
proof -
  have h1: "downloadImageFeishu stub_ok (buildCfg []) (Some ''img_123'')
              = Inr \<lparr>buffer = payload17, contentType = Some ''image/png'', fileName = None\<rparr>"
    by (simp add: stub_ok_def)
  have h2: "downloadMessageResourceFeishu stub_ok (buildCfg []) (Some ''om_1'') (Some ''file_1'')
              (js_default None ''file'')
              = Inr \<lparr>buffer = [1, 2, 3, 4], contentType = None, fileName = Some ''a.bin''\<rparr>"
    by (simp add: stub_ok_def)
  from download_dataUrl_roundtrip
    [where w = stub_ok and feishuCfg = "[]" and imageKey = "Some ''img_123''"
       and r = "\<lparr>buffer = payload17, contentType = Some ''image/png'', fileName = None\<rparr>"
       and messageId = "Some ''om_1''" and fileKey = "Some ''file_1''" and type_opt = None
       and r' = "\<lparr>buffer = [1, 2, 3, 4], contentType = None, fileName = Some ''a.bin''\<rparr>"]
    h1 h2
  show ?thesis by simp
qed








text \<open>
  C5. Every envelope that a pipeline or a tool returns, on every input and for every outcome
  of the primitives, has exactly one of \<^verbatim>\<open>details\<close> and \<^verbatim>\<open>error\<close>, and its content
  starts with a text item.
\<close>

theorem envelope_exactly_one_shape:
  "(fst (doUploadImage w feishuCfg path imageType_opt) = Inr e \<longrightarrow>
      exactly_one_shape e \<and> first_is_text e)
   \<and> (fst (doUploadFile w feishuCfg path fileName_opt fileType_opt duration) = Inr e \<longrightarrow>
      exactly_one_shape e \<and> first_is_text e)
   \<and> (fst (doDownloadImage w feishuCfg imageKey) = Inr e \<longrightarrow>
      exactly_one_shape e \<and> first_is_text e)
   \<and> (fst (doDownloadFile w feishuCfg messageId fileKey type_opt) = Inr e \<longrightarrow>
      exactly_one_shape e \<and> first_is_text e)
   \<and> (fst (doSendImage w feishuCfg to imageKey replyToMessageId) = Inr e \<longrightarrow>
      exactly_one_shape e \<and> first_is_text e)
   \<and> (fst (doSendFile w feishuCfg to fileKey replyToMessageId) = Inr e \<longrightarrow>
      exactly_one_shape e \<and> first_is_text e)
   \<and> (fst (feishu_upload_image w feishuCfg path_opt imageType_opt) = Inr e \<longrightarrow>
      exactly_one_shape e \<and> first_is_text e)
   \<and> (fst (feishu_upload_file w feishuCfg path_opt fileName_opt fileType_opt duration) = Inr e
        \<longrightarrow> exactly_one_shape e \<and> first_is_text e)
   \<and> (fst (feishu_download_image w feishuCfg imageKey) = Inr e \<longrightarrow>
      exactly_one_shape e \<and> first_is_text e)
   \<and> (fst (feishu_download_file w feishuCfg messageId fileKey type_opt) = Inr e \<longrightarrow>
      exactly_one_shape e \<and> first_is_text e)
   \<and> (fst (feishu_send_image w feishuCfg to imageKey replyToMessageId) = Inr e \<longrightarrow>
      exactly_one_shape e \<and> first_is_text e)
   \<and> (fst (feishu_send_file w feishuCfg to fileKey replyToMessageId) = Inr e \<longrightarrow>
      exactly_one_shape e \<and> first_is_text e)"
proof -
  have upload_image:
    "fst (feishu_upload_image w feishuCfg path_opt imageType_opt) = Inr e \<longrightarrow>
       exactly_one_shape e \<and> first_is_text e"
    using shape_doUploadImage errResult_shape
    by (auto simp: feishu_upload_image_def split: option.splits if_splits)
  have upload_file:
    "fst (feishu_upload_file w feishuCfg path_opt fileName_opt fileType_opt duration) = Inr e
       \<longrightarrow> exactly_one_shape e \<and> first_is_text e"
    using shape_doUploadFile errResult_shape
    by (auto simp: feishu_upload_file_def split: option.splits if_splits)
  show ?thesis
    using shape_doUploadImage shape_doUploadFile shape_doDownloadImage shape_doDownloadFile
      shape_doSendImage shape_doSendFile upload_image upload_file
    by (simp add: feishu_download_image_def feishu_download_file_def feishu_send_image_def
        feishu_send_file_def)
qed

theorem envelope_exactly_one_shape_witness:
  "(\<exists>e. fst (doUploadImage stub_ok [] ''/tmp/report.pdf'' None) = Inr e
        \<and> exactly_one_shape e \<and> first_is_text e)
   \<and> (\<exists>e. fst (doUploadFile stub_ok [] ''/tmp/none.bin'' None None None) = Inr e
        \<and> exactly_one_shape e \<and> first_is_text e)
   \<and> (\<exists>e. fst (doDownloadImage stub_ok [] None) = Inr e
        \<and> exactly_one_shape e \<and> first_is_text e)
   \<and> (\<exists>e. fst (doDownloadFile stub_failing [] None None None) = Inr e
        \<and> exactly_one_shape e \<and> first_is_text e)
   \<and> (\<exists>e. fst (doSendImage stub_failing [] None None None) = Inr e
        \<and> exactly_one_shape e \<and> first_is_text e)
   \<and> (\<exists>e. fst (doSendFile stub_ok [] None None None) = Inr e
        \<and> exactly_one_shape e \<and> first_is_text e)
   \<and> (\<exists>e. fst (feishu_upload_image stub_ok [] None None) = Inr e
        \<and> exactly_one_shape e \<and> first_is_text e)
   \<and> (\<exists>e. fst (feishu_upload_file stub_ok [] (Some ''/tmp/report.pdf'') None None None) = Inr e
        \<and> exactly_one_shape e \<and> first_is_text e)
   \<and> (\<exists>e. fst (feishu_download_image stub_ok [] None) = Inr e
        \<and> exactly_one_shape e \<and> first_is_text e)
   \<and> (\<exists>e. fst (feishu_download_file stub_failing [] None None None) = Inr e
        \<and> exactly_one_shape e \<and> first_is_text e)
   \<and> (\<exists>e. fst (feishu_send_image stub_failing [] None None None) = Inr e
        \<and> exactly_one_shape e \<and> first_is_text e)
   \<and> (\<exists>e. fst (feishu_send_file stub_ok [] None None None) = Inr e
        \<and> exactly_one_shape e \<and> first_is_text e)"
proof -
  have r1: "\<exists>e. fst (doUploadImage stub_ok [] ''/tmp/report.pdf'' None) = Inr e"
    by (simp add: doUploadImage_result stub_ok_def resolvePath_def startsWith_def)
  have r2: "\<exists>e. fst (doUploadFile stub_ok [] ''/tmp/none.bin'' None None None) = Inr e"
    by (simp add: doUploadFile_result stub_ok_def resolvePath_def startsWith_def)
  have r3: "\<exists>e. fst (doDownloadImage stub_ok [] None) = Inr e"
    by (simp add: doDownloadImage_def try_catch_def stub_ok_def Let_def)
  have r4: "\<exists>e. fst (doDownloadFile stub_failing [] None None None) = Inr e"
    by (simp add: doDownloadFile_def try_catch_def stub_failing_def Let_def errResult_Error)
  have r5: "\<exists>e. fst (doSendImage stub_failing [] None None None) = Inr e"
    by (simp add: doSendImage_result stub_failing_def errResult_def)
  have r6: "\<exists>e. fst (doSendFile stub_ok [] None None None) = Inr e"
    by (simp add: doSendFile_result stub_ok_def)
  have r7: "\<exists>e. fst (feishu_upload_image stub_ok [] None None) = Inr e"
    by (simp add: feishu_upload_image_def errResult_def)
  have r8: "\<exists>e. fst (feishu_upload_file stub_ok [] (Some ''/tmp/report.pdf'') None None None) = Inr e"
    by (simp add: feishu_upload_file_def doUploadFile_result stub_ok_def resolvePath_def
        startsWith_def)
  have r9: "\<exists>e. fst (feishu_download_image stub_ok [] None) = Inr e"
    using r3 by (simp add: feishu_download_image_def)
  have r10: "\<exists>e. fst (feishu_download_file stub_failing [] None None None) = Inr e"
    using r4 by (simp add: feishu_download_file_def)
  have r11: "\<exists>e. fst (feishu_send_image stub_failing [] None None None) = Inr e"
    using r5 by (simp add: feishu_send_image_def)
  have r12: "\<exists>e. fst (feishu_send_file stub_ok [] None None None) = Inr e"
    using r6 by (simp add: feishu_send_file_def)
  note ok = envelope_exactly_one_shape
    [where w = stub_ok and feishuCfg = "[]" and imageKey = None and to = None
       and fileKey = None and replyToMessageId = None and imageType_opt = None
       and fileName_opt = None and fileType_opt = None and duration = None]
  note failing = envelope_exactly_one_shape
    [where w = stub_failing and feishuCfg = "[]" and imageKey = None and to = None
       and messageId = None and fileKey = None and replyToMessageId = None
       and type_opt = None]
  from r1 ok [where path = "''/tmp/report.pdf''"]
  have a1: "\<exists>e. fst (doUploadImage stub_ok [] ''/tmp/report.pdf'' None) = Inr e
              \<and> exactly_one_shape e \<and> first_is_text e"
    by blast
  from r2 ok [where path = "''/tmp/none.bin''"]
  have a2: "\<exists>e. fst (doUploadFile stub_ok [] ''/tmp/none.bin'' None None None) = Inr e
              \<and> exactly_one_shape e \<and> first_is_text e"
    by blast
  from r3 r6 r9 r12 ok
  have a3: "(\<exists>e. fst (doDownloadImage stub_ok [] None) = Inr e
              \<and> exactly_one_shape e \<and> first_is_text e)
            \<and> (\<exists>e. fst (doSendFile stub_ok [] None None None) = Inr e
              \<and> exactly_one_shape e \<and> first_is_text e)
            \<and> (\<exists>e. fst (feishu_download_image stub_ok [] None) = Inr e
              \<and> exactly_one_shape e \<and> first_is_text e)
            \<and> (\<exists>e. fst (feishu_send_file stub_ok [] None None None) = Inr e
              \<and> exactly_one_shape e \<and> first_is_text e)"
    by blast
  from r7 ok [where path_opt = None]
  have a4: "\<exists>e. fst (feishu_upload_image stub_ok [] None None) = Inr e
              \<and> exactly_one_shape e \<and> first_is_text e"
    by blast
  from r8 ok [where path_opt = "Some ''/tmp/report.pdf''"]
  have a5: "\<exists>e. fst (feishu_upload_file stub_ok [] (Some ''/tmp/report.pdf'') None None None) = Inr e
              \<and> exactly_one_shape e \<and> first_is_text e"
    by blast
  from r4 r5 r10 r11 failing
  have a6: "(\<exists>e. fst (doDownloadFile stub_failing [] None None None) = Inr e
              \<and> exactly_one_shape e \<and> first_is_text e)
            \<and> (\<exists>e. fst (doSendImage stub_failing [] None None None) = Inr e
              \<and> exactly_one_shape e \<and> first_is_text e)
            \<and> (\<exists>e. fst (feishu_download_file stub_failing [] None None None) = Inr e
              \<and> exactly_one_shape e \<and> first_is_text e)
            \<and> (\<exists>e. fst (feishu_send_image stub_failing [] None None None) = Inr e
              \<and> exactly_one_shape e \<and> first_is_text e)"
    by blast
  from a1 a2 a3 a4 a5 a6 show ?thesis by simp
qed

text \<open>
  C6. For a successful download the operation returns an envelope whose data URL is
  \<^verbatim>\<open>data:\<close>, the content type that the primitive declared, \<^verbatim>\<open>;base64,\<close> and the
  base64 text of the payload; without a declared content type (absent or empty) the image
  download uses \<^verbatim>\<open>image/png\<close> and the file download \<^verbatim>\<open>application/octet-stream\<close>.
  The summary text gives the number of bytes of the payload in decimal, followed by
  \<^verbatim>\<open> bytes\<close>.
\<close>

theorem download_dataUrl_and_summary:
  "(downloadImageFeishu w (buildCfg feishuCfg) imageKey = Inr r \<longrightarrow>
      (\<exists>e. fst (doDownloadImage w feishuCfg imageKey) = Inr e
         \<and> (contentType r = Some ct \<and> ct \<noteq> [] \<longrightarrow>
              dataUrl_of e = Some (''data:'' @ ct @ '';base64,'' @ toString_base64 (buffer r)))
         \<and> (contentType r = None \<or> contentType r = Some [] \<longrightarrow>
              dataUrl_of e = Some (''data:image/png;base64,'' @ toString_base64 (buffer r)))
         \<and> (\<exists>rest. summary_text e
                = ''Downloaded image ('' @ show_nat (length (buffer r)) @ '' bytes'' @ rest)))
   \<and> (downloadMessageResourceFeishu w (buildCfg feishuCfg) messageId fileKey
         (js_default type_opt ''file'') = Inr r \<longrightarrow>
      (\<exists>e. fst (doDownloadFile w feishuCfg messageId fileKey type_opt) = Inr e
         \<and> (contentType r = Some ct \<and> ct \<noteq> [] \<longrightarrow>
              dataUrl_of e = Some (''data:'' @ ct @ '';base64,'' @ toString_base64 (buffer r)))
         \<and> (contentType r = None \<or> contentType r = Some [] \<longrightarrow>
              dataUrl_of e
                = Some (''data:application/octet-stream;base64,'' @ toString_base64 (buffer r)))
         \<and> (\<exists>rest. summary_text e
                = ''Downloaded file ('' @ show_nat (length (buffer r)) @ '' bytes'' @ rest)))"
  by (auto simp: doDownloadImage_def doDownloadFile_def try_catch_def dataUrl_of_def
      summary_text_def js_or_def Let_def)

theorem download_dataUrl_and_summary_witness:
  "(\<exists>e. fst (doDownloadImage stub_ok [] (Some ''img_123'')) = Inr e
      \<and> dataUrl_of e = Some (''data:image/png;base64,'' @ toString_base64 payload17)
      \<and> (\<exists>rest. summary_text e = ''Downloaded image (17 bytes'' @ rest))
   \<and> length payload17 = 17
   \<and> (\<exists>e. fst (doDownloadFile stub_ok [] (Some ''om_1'') (Some ''file_1'') None) = Inr e
      \<and> dataUrl_of e = Some ''data:application/octet-stream;base64,AQIDBA==''
      \<and> (\<exists>rest. summary_text e = ''Downloaded file (4 bytes'' @ rest))"
proof -
  have h1: "downloadImageFeishu stub_ok (buildCfg []) (Some ''img_123'')
              = Inr \<lparr>buffer = payload17, contentType = Some ''image/png'', fileName = None\<rparr>"
    by (simp add: stub_ok_def)
  have h2: "downloadMessageResourceFeishu stub_ok (buildCfg []) (Some ''om_1'') (Some ''file_1'')
              (js_default None ''file'')
              = Inr \<lparr>buffer = [1, 2, 3, 4], contentType = None, fileName = Some ''a.bin''\<rparr>"
    by (simp add: stub_ok_def)
  have n17: "length payload17 = 17" "show_nat 17 = ''17''"
    by (simp_all add: payload17_def show_nat.simps digit_char_def)
  have n4: "show_nat (length [1, 2, 3, 4 :: 8 word]) = ''4''"
    by (simp add: show_nat.simps digit_char_def)
  have b64: "toString_base64 [1, 2, 3, 4] = ''AQIDBA==''"
    by (simp add: b64_char_def b64chars_def)
  from download_dataUrl_and_summary
    [where w = stub_ok and feishuCfg = "[]" and imageKey = "Some ''img_123''"
       and r = "\<lparr>buffer = payload17, contentType = Some ''image/png'', fileName = None\<rparr>"
       and ct = "''image/png''"] h1 n17
  have a: "\<exists>e. fst (doDownloadImage stub_ok [] (Some ''img_123'')) = Inr e
             \<and> dataUrl_of e = Some (''data:image/png;base64,'' @ toString_base64 payload17)
             \<and> (\<exists>rest. summary_text e = ''Downloaded image (17 bytes'' @ rest)"
    by simp
  from download_dataUrl_and_summary
    [where w = stub_ok and feishuCfg = "[]" and messageId = "Some ''om_1''"
       and fileKey = "Some ''file_1''" and type_opt = None
       and r = "\<lparr>buffer = [1, 2, 3, 4], contentType = None, fileName = Some ''a.bin''\<rparr>"]
    h2 n4 b64
  have b: "\<exists>e. fst (doDownloadFile stub_ok [] (Some ''om_1'') (Some ''file_1'') None) = Inr e
             \<and> dataUrl_of e = Some ''data:application/octet-stream;base64,AQIDBA==''
             \<and> (\<exists>rest. summary_text e = ''Downloaded file (4 bytes'' @ rest)"
    by simp
  from a b n17 show ?thesis by simp
qed

text \<open>
  C7 (as amended). When the resolved path exists, \<^verbatim>\<open>doUploadFile\<close> calls the upload
  primitive once. A supplied non-empty \<^verbatim>\<open>fileType\<close> is passed on unchanged; an absent or
  empty one is replaced by \<^verbatim>\<open>detectFileType\<close> of the effective file name, which is the
  supplied non-empty \<^verbatim>\<open>fileName\<close> or else the base name of the resolved path. So
  \<^verbatim>\<open>/tmp/report.pdf\<close> without name and type is uploaded with type \<^verbatim>\<open>pdf\<close>.
\<close>

theorem upload_file_type_selection:
  "(existsSync w (resolvePath w path) \<and> fileType_opt = Some ft \<and> ft \<noteq> [] \<longrightarrow>
      filter is_transfer (snd (doUploadFile w feishuCfg path fileName_opt fileType_opt duration))
        = [UploadFileFeishu (buildCfg feishuCfg) (resolvePath w path)
             (js_or fileName_opt (basename (resolvePath w path))) ft duration])
   \<and> (existsSync w (resolvePath w path) \<and> (fileType_opt = None \<or> fileType_opt = Some []) \<longrightarrow>
      filter is_transfer (snd (doUploadFile w feishuCfg path fileName_opt fileType_opt duration))
        = [UploadFileFeishu (buildCfg feishuCfg) (resolvePath w path)
             (js_or fileName_opt (basename (resolvePath w path)))
             (detectFileType (js_or fileName_opt (basename (resolvePath w path)))) duration])
   \<and> (fileName_opt = Some name \<and> name \<noteq> [] \<longrightarrow>
        js_or fileName_opt (basename (resolvePath w path)) = name)
   \<and> (fileName_opt = None \<or> fileName_opt = Some [] \<longrightarrow>
        js_or fileName_opt (basename (resolvePath w path)) = basename (resolvePath w path))
   \<and> (existsSync w ''/tmp/report.pdf'' \<longrightarrow>
      filter is_transfer (snd (doUploadFile w feishuCfg ''/tmp/report.pdf'' None None duration))
        = [UploadFileFeishu (buildCfg feishuCfg) ''/tmp/report.pdf'' ''report.pdf'' ''pdf''
             duration])"
proof -
  have plain: "resolvePath w ''/tmp/report.pdf'' = ''/tmp/report.pdf''"
    by (simp add: resolvePath_def startsWith_def)
  have base: "basename ''/tmp/report.pdf'' = ''report.pdf''"
    by (simp add: basename_def)
  have pdf: "detectFileType ''report.pdf'' = ''pdf''"
    by (simp add: detectFileType_def extension_def toLowerCase_char_def)
  show ?thesis
    by (auto simp: doUploadFile_calls js_or_def plain base pdf)
qed

theorem upload_file_type_selection_witness:
  "filter is_transfer (snd (doUploadFile stub_ok [] ''/tmp/report.pdf'' None (Some ''stream'') None))
     = [UploadFileFeishu (buildCfg []) ''/tmp/report.pdf'' ''report.pdf'' ''stream'' None]
   \<and> filter is_transfer (snd (doUploadFile stub_ok [] ''/tmp/report.pdf'' (Some ''Q3.DOCX'') None None))
     = [UploadFileFeishu (buildCfg []) ''/tmp/report.pdf'' ''Q3.DOCX'' ''doc'' None]
   \<and> filter is_transfer (snd (doUploadFile stub_ok [] ''/tmp/report.pdf'' None None (Some 1500)))
     = [UploadFileFeishu (buildCfg []) ''/tmp/report.pdf'' ''report.pdf'' ''pdf'' (Some 1500)]"
proof -
  have ex: "existsSync stub_ok ''/tmp/report.pdf''"
    "resolvePath stub_ok ''/tmp/report.pdf'' = ''/tmp/report.pdf''"
    by (simp_all add: stub_ok_def resolvePath_def startsWith_def)
  have base: "basename ''/tmp/report.pdf'' = ''report.pdf''"
    by (simp add: basename_def)
  have doc: "detectFileType ''Q3.DOCX'' = ''doc''"
    by (simp add: detectFileType_def extension_def toLowerCase_char_def)
  from upload_file_type_selection
    [where w = stub_ok and feishuCfg = "[]" and path = "''/tmp/report.pdf''"
       and fileName_opt = None and fileType_opt = "Some ''stream''" and ft = "''stream''"
       and duration = None] ex base
  have a: "filter is_transfer
             (snd (doUploadFile stub_ok [] ''/tmp/report.pdf'' None (Some ''stream'') None))
           = [UploadFileFeishu (buildCfg []) ''/tmp/report.pdf'' ''report.pdf'' ''stream'' None]"
    by (simp add: js_or_def)
  from upload_file_type_selection
    [where w = stub_ok and feishuCfg = "[]" and path = "''/tmp/report.pdf''"
       and fileName_opt = "Some ''Q3.DOCX''" and name = "''Q3.DOCX''" and fileType_opt = None
       and duration = None] ex doc
  have b: "filter is_transfer
             (snd (doUploadFile stub_ok [] ''/tmp/report.pdf'' (Some ''Q3.DOCX'') None None))
           = [UploadFileFeishu (buildCfg []) ''/tmp/report.pdf'' ''Q3.DOCX'' ''doc'' None]"
    by simp
  from upload_file_type_selection
    [where w = stub_ok and feishuCfg = "[]" and duration = "Some 1500"] ex
  have c: "filter is_transfer
             (snd (doUploadFile stub_ok [] ''/tmp/report.pdf'' None None (Some 1500)))
           = [UploadFileFeishu (buildCfg []) ''/tmp/report.pdf'' ''report.pdf'' ''pdf''
                (Some 1500)]"
    by simp
  from a b c show ?thesis by simp
qed

text \<open>
  The claim as stated fails for an empty \<^verbatim>\<open>fileType\<close> or \<^verbatim>\<open>fileName\<close>: they are supplied,
  yet the upload goes out with the detected type and the base name.
\<close>

theorem upload_file_empty_fileType_counterexample:
  "snd (doUploadFile stub_ok [] ''/tmp/report.pdf'' (Some []) (Some []) None)
     = [ExistsSync ''/tmp/report.pdf'',
        UploadFileFeishu (buildCfg []) ''/tmp/report.pdf'' ''report.pdf'' ''pdf'' None]"
  by (simp add: doUploadFile_calls stub_ok_def resolvePath_def startsWith_def js_or_def
      basename_def detectFileType_def extension_def toLowerCase_char_def)

text \<open>
  C8. When the resolved path of an upload does not exist, the operation returns the failure
  envelope whose message ends in the resolved path (the path after the home-directory
  expansion), and the only call made is the existence probe: no primitive is called.
\<close>

theorem upload_missing_file_reports_resolved_path:
  "\<not> existsSync w (resolvePath w path) \<longrightarrow>
     fst (doUploadImage w feishuCfg path imageType_opt)
       = Inr (spec_failure_envelope (''Image file not found: '' @ resolvePath w path))
     \<and> filter is_transfer (snd (doUploadImage w feishuCfg path imageType_opt)) = []
     \<and> fst (doUploadFile w feishuCfg path fileName_opt fileType_opt duration)
       = Inr (spec_failure_envelope (''File not found: '' @ resolvePath w path))
     \<and> filter is_transfer (snd (doUploadFile w feishuCfg path fileName_opt fileType_opt duration))
       = []"
  by (simp add: doUploadImage_result doUploadFile_result doUploadImage_calls doUploadFile_calls)

theorem upload_missing_file_reports_resolved_path_witness:
  "(\<exists>e. fst (doUploadImage stub_ok [] ''~/pic.png'' None) = Inr e
      \<and> error e = Some ''Image file not found: /home/u/pic.png'')
   \<and> snd (doUploadImage stub_ok [] ''~/pic.png'' None) = [ExistsSync ''/home/u/pic.png'']
   \<and> (\<exists>e. fst (doUploadFile stub_ok [] ''~/notes.pdf'' None None None) = Inr e
      \<and> error e = Some ''File not found: /home/u/notes.pdf'')
   \<and> filter is_transfer (snd (doUploadFile stub_ok [] ''~/notes.pdf'' None None None)) = []"
proof -
  have r: "resolvePath stub_ok ''~/pic.png'' = ''/home/u/pic.png''"
    "resolvePath stub_ok ''~/notes.pdf'' = ''/home/u/notes.pdf''"
    by (simp_all add: resolvePath_def startsWith_def replace_def stub_ok_def js_default_def)
  have missing: "\<not> existsSync stub_ok ''/home/u/pic.png''"
    "\<not> existsSync stub_ok ''/home/u/notes.pdf''"
    by (simp_all add: stub_ok_def)
  from upload_missing_file_reports_resolved_path
    [where w = stub_ok and feishuCfg = "[]" and path = "''~/pic.png''" and imageType_opt = None]
    r missing
  have a: "\<exists>e. fst (doUploadImage stub_ok [] ''~/pic.png'' None) = Inr e
             \<and> error e = Some ''Image file not found: /home/u/pic.png''"
    by (simp add: spec_failure_envelope_def)
  from upload_missing_file_reports_resolved_path
    [where w = stub_ok and feishuCfg = "[]" and path = "''~/notes.pdf''"
       and fileName_opt = None and fileType_opt = None and duration = None]
    r missing
  have b: "(\<exists>e. fst (doUploadFile stub_ok [] ''~/notes.pdf'' None None None) = Inr e
             \<and> error e = Some ''File not found: /home/u/notes.pdf'')
           \<and> filter is_transfer (snd (doUploadFile stub_ok [] ''~/notes.pdf'' None None None)) = []"
    by (simp add: spec_failure_envelope_def)
  have c: "snd (doUploadImage stub_ok [] ''~/pic.png'' None) = [ExistsSync ''/home/u/pic.png'']"
    using r missing by (simp add: doUploadImage_calls)
  from a b c show ?thesis by simp
qed

text \<open>
  C9. With \<^verbatim>\<open>imageType\<close> omitted, the one primitive call that \<^verbatim>\<open>doUploadImage\<close> makes
  (it makes it exactly when the resolved path exists) carries the image type
  \<^verbatim>\<open>message\<close>; with \<^verbatim>\<open>type\<close> omitted, \<^verbatim>\<open>doDownloadFile\<close> always calls its primitive
  with the resource type \<^verbatim>\<open>file\<close>. The execute functions pass an omitted field on as it is.
\<close>

theorem optional_field_defaults:
  "filter is_transfer (snd (doUploadImage w feishuCfg path None))
     = (if existsSync w (resolvePath w path)
        then [UploadImageFeishu (buildCfg feishuCfg) (resolvePath w path) ''message'']
        else [])
   \<and> snd (doDownloadFile w feishuCfg messageId fileKey None)
     = [DownloadMessageResourceFeishu (buildCfg feishuCfg) messageId fileKey ''file'']
   \<and> feishu_upload_image w feishuCfg (Some (c # cs)) None
     = doUploadImage w feishuCfg (c # cs) None
   \<and> feishu_download_file w feishuCfg messageId fileKey None
     = doDownloadFile w feishuCfg messageId fileKey None"
  by (simp add: doUploadImage_calls doDownloadFile_calls js_default_def
      feishu_upload_image_def feishu_download_file_def)

theorem optional_field_defaults_witness:
  "filter is_transfer (snd (doUploadImage stub_ok [] ''/tmp/report.pdf'' None))
     = [UploadImageFeishu (buildCfg []) ''/tmp/report.pdf'' ''message'']
   \<and> filter is_transfer (snd (doUploadImage stub_ok [] ''/tmp/none.png'' None)) = []
   \<and> snd (doDownloadFile stub_ok [] (Some ''om_1'') (Some ''file_1'') None)
     = [DownloadMessageResourceFeishu (buildCfg []) (Some ''om_1'') (Some ''file_1'') ''file'']"
proof -
  have ex: "existsSync stub_ok (resolvePath stub_ok ''/tmp/report.pdf'')"
    "resolvePath stub_ok ''/tmp/report.pdf'' = ''/tmp/report.pdf''"
    "\<not> existsSync stub_ok (resolvePath stub_ok ''/tmp/none.png'')"
    by (simp_all add: stub_ok_def resolvePath_def startsWith_def)
  from optional_field_defaults
    [where w = stub_ok and feishuCfg = "[]" and path = "''/tmp/report.pdf''"
       and messageId = "Some ''om_1''" and fileKey = "Some ''file_1''"]
    optional_field_defaults [where w = stub_ok and feishuCfg = "[]" and path = "''/tmp/none.png''"]
    ex
  show ?thesis by simp
qed

text \<open>
  C10. Each pipeline of the newer variant returns the same envelope as its counterpart of
  the older variant, on the same input and in the same environment, provided the primitive
  gives the same outcome for the two shapes of the configuration object (the variants file
  the credentials under different channel keys).
\<close>

theorem newer_pipelines_agree_with_older:
  "(uploadImageFeishu w (buildCfg feishuCfg) (resolvePath w path)
        (js_default imageType_opt ''message'')
      = uploadImageFeishu w (cfg_old feishuCfg) (resolvePath w path)
          (js_default imageType_opt ''message'') \<longrightarrow>
      fst (doUploadImage w feishuCfg path imageType_opt)
        = fst (doFeishuUploadImage w feishuCfg path imageType_opt))
   \<and> (uploadFileFeishu w (buildCfg feishuCfg) (resolvePath w path)
         (js_or fileName_opt (basename (resolvePath w path)))
         (js_or fileType_opt
            (detectFileType (js_or fileName_opt (basename (resolvePath w path)))))
         duration
      = uploadFileFeishu w (cfg_old feishuCfg) (resolvePath w path)
          (js_or fileName_opt (basename (resolvePath w path)))
          (js_or fileType_opt
             (detectFileType (js_or fileName_opt (basename (resolvePath w path)))))
          duration \<longrightarrow>
      fst (doUploadFile w feishuCfg path fileName_opt fileType_opt duration)
        = fst (doFeishuUploadFile w feishuCfg path fileName_opt fileType_opt duration))
   \<and> (downloadImageFeishu w (buildCfg feishuCfg) imageKey
      = downloadImageFeishu w (cfg_old feishuCfg) imageKey \<longrightarrow>
      fst (doDownloadImage w feishuCfg imageKey) = fst (doFeishuDownloadImage w feishuCfg imageKey))
   \<and> (downloadMessageResourceFeishu w (buildCfg feishuCfg) messageId fileKey
         (js_default type_opt ''file'')
      = downloadMessageResourceFeishu w (cfg_old feishuCfg) messageId fileKey
          (js_default type_opt ''file'') \<longrightarrow>
      fst (doDownloadFile w feishuCfg messageId fileKey type_opt)
        = fst (doFeishuDownloadFile w feishuCfg messageId fileKey type_opt))
   \<and> (sendImageFeishu w (buildCfg feishuCfg) to imageKey replyToMessageId
      = sendImageFeishu w (cfg_old feishuCfg) to imageKey replyToMessageId \<longrightarrow>
      fst (doSendImage w feishuCfg to imageKey replyToMessageId)
        = fst (doFeishuSendImage w feishuCfg to imageKey replyToMessageId))
   \<and> (sendFileFeishu w (buildCfg feishuCfg) to fileKey replyToMessageId
      = sendFileFeishu w (cfg_old feishuCfg) to fileKey replyToMessageId \<longrightarrow>
      fst (doSendFile w feishuCfg to fileKey replyToMessageId)
        = fst (doFeishuSendFile w feishuCfg to fileKey replyToMessageId))"
proof -
  have helpers: "json_old = json" "error_old = errResult" "resolvePath_old = resolvePath"
    by (simp_all add: fun_eq_iff json_old_def json_def error_old_def errResult_def
        resolvePath_old_def resolvePath_def)
  show ?thesis
    by (simp add: helpers try_catch_def Let_def
        doUploadImage_def doFeishuUploadImage_def doUploadFile_def doFeishuUploadFile_def
        doDownloadImage_def doFeishuDownloadImage_def doDownloadFile_def doFeishuDownloadFile_def
        doSendImage_def doFeishuSendImage_def doSendFile_def doFeishuSendFile_def
        split: sum.splits)
qed

theorem newer_pipelines_agree_with_older_witness:
  "fst (doUploadImage stub_ok [] ''/tmp/report.pdf'' None)
     = fst (doFeishuUploadImage stub_ok [] ''/tmp/report.pdf'' None)
   \<and> fst (doUploadFile stub_ok [] ''~/x.pdf'' None None None)
     = fst (doFeishuUploadFile stub_ok [] ''~/x.pdf'' None None None)
   \<and> fst (doDownloadImage stub_ok [] (Some ''img_123''))
     = fst (doFeishuDownloadImage stub_ok [] (Some ''img_123''))
   \<and> fst (doDownloadFile stub_failing [] (Some ''om_1'') (Some ''file_1'') None)
     = fst (doFeishuDownloadFile stub_failing [] (Some ''om_1'') (Some ''file_1'') None)
   \<and> fst (doSendImage stub_failing [] (Some ''oc_1'') (Some ''img_1'') None)
     = fst (doFeishuSendImage stub_failing [] (Some ''oc_1'') (Some ''img_1'') None)
   \<and> fst (doSendFile stub_ok [] (Some ''oc_1'') (Some ''file_1'') None)
     = fst (doFeishuSendFile stub_ok [] (Some ''oc_1'') (Some ''file_1'') None)"
proof -
  have same_ok:
    "uploadImageFeishu stub_ok (buildCfg []) = uploadImageFeishu stub_ok (cfg_old [])"
    "uploadFileFeishu stub_ok (buildCfg []) = uploadFileFeishu stub_ok (cfg_old [])"
    "downloadImageFeishu stub_ok (buildCfg []) = downloadImageFeishu stub_ok (cfg_old [])"
    "sendFileFeishu stub_ok (buildCfg []) = sendFileFeishu stub_ok (cfg_old [])"
    by (simp_all add: stub_ok_def)
  have same_failing:
    "downloadMessageResourceFeishu stub_failing (buildCfg [])
       = downloadMessageResourceFeishu stub_failing (cfg_old [])"
    "sendImageFeishu stub_failing (buildCfg []) = sendImageFeishu stub_failing (cfg_old [])"
    by (simp_all add: stub_failing_def)
  note ok1 = newer_pipelines_agree_with_older
    [where w = stub_ok and feishuCfg = "[]" and path = "''/tmp/report.pdf''"
       and imageType_opt = None and imageKey = "Some ''img_123''"
       and to = "Some ''oc_1''" and fileKey = "Some ''file_1''" and replyToMessageId = None]
  note ok2 = newer_pipelines_agree_with_older
    [where w = stub_ok and feishuCfg = "[]" and path = "''~/x.pdf''"
       and fileName_opt = None and fileType_opt = None and duration = None]
  note failing = newer_pipelines_agree_with_older
    [where w = stub_failing and feishuCfg = "[]" and messageId = "Some ''om_1''"
       and fileKey = "Some ''file_1''" and type_opt = None
       and to = "Some ''oc_1''" and imageKey = "Some ''img_1''" and replyToMessageId = None]
  from ok1 same_ok
  have a: "fst (doUploadImage stub_ok [] ''/tmp/report.pdf'' None)
             = fst (doFeishuUploadImage stub_ok [] ''/tmp/report.pdf'' None)
           \<and> fst (doDownloadImage stub_ok [] (Some ''img_123''))
             = fst (doFeishuDownloadImage stub_ok [] (Some ''img_123''))
           \<and> fst (doSendFile stub_ok [] (Some ''oc_1'') (Some ''file_1'') None)
             = fst (doFeishuSendFile stub_ok [] (Some ''oc_1'') (Some ''file_1'') None)"
    by simp
  from ok2 same_ok
  have b: "fst (doUploadFile stub_ok [] ''~/x.pdf'' None None None)
             = fst (doFeishuUploadFile stub_ok [] ''~/x.pdf'' None None None)"
    by simp
  from failing same_failing
  have c: "fst (doDownloadFile stub_failing [] (Some ''om_1'') (Some ''file_1'') None)
             = fst (doFeishuDownloadFile stub_failing [] (Some ''om_1'') (Some ''file_1'') None)
           \<and> fst (doSendImage stub_failing [] (Some ''oc_1'') (Some ''img_1'') None)
             = fst (doFeishuSendImage stub_failing [] (Some ''oc_1'') (Some ''img_1'') None)"
    by simp
  from a b c show ?thesis by simp
qed

end
